theory Spec2Isabelle
  imports Main "HOL-Library.Word"
begin

section \<open>JavaScript values as the handler sees them\<close>

text \<open>
  The handler of \<^verbatim>\<open>src/index.ts\<close> works on untyped JSON data (\<^verbatim>\<open>any\<close>): the
  bodies returned by the review server and the values built from them. (The source tree
  holds two states of that file; the model follows the later one, which has all six
  tools.)

  A string of the program is a sequence of UTF-16 code units, so that its length, its
  indices and its iteration are those of the program. Text written in this theory is
  ASCII and is embedded by \<open>ascii\<close>. A number is an integer that a double holds
  exactly and that is printed with all its digits: \<open>- 2 ^ 53 \<le> i < 2 ^ 53\<close>, a word of 54
  bits read as a signed value. The program does no arithmetic on numbers; fractions and
  larger numbers are not values of the model.
\<close>

type_synonym jstring = "16 word list"

type_synonym js_int = "54 word"

definition ascii :: "string \<Rightarrow> jstring" where
  "ascii s = map (\<lambda>c. of_nat (of_char c)) s"

text \<open>
  A value is one of the JSON shapes or \<^verbatim>\<open>undefined\<close>. An object is the list of its own
  entries (the first entry of a name is the one that counts).
\<close>

datatype jsval =
    JUndefined
  | JNull
  | JBool bool
  | JNum js_int
  | JStr jstring
  | JArr "jsval list"
  | JObj "(jstring \<times> jsval) list"

text \<open>
  Everything thrown in this program is an \<^verbatim>\<open>Error\<close> object: it has a \<^verbatim>\<open>message\<close>,
  and an error of the HTTP client may carry the server's answer, of which the handler
  reads \<^verbatim>\<open>response.data\<close> only. \<open>response_data = None\<close> is an error without
  \<^verbatim>\<open>response\<close>.
\<close>

record js_error =
  message :: jstring
  response_data :: "jsval option"

definition new_Error :: "jstring \<Rightarrow> js_error" where
  "new_Error m = \<lparr>message = m, response_data = None\<rparr>"

text \<open>
  What the runtime itself throws (a TypeError each time): a property read of
  \<^verbatim>\<open>undefined\<close> or \<^verbatim>\<open>null\<close> (with the value and the key), the conversion to text of an
  object that has no primitive value, and \<^verbatim>\<open>for ... of\<close> over a value that is not
  iterable.
\<close>

datatype fault =
    NullishRead jsval jsval
  | NoPrimitive jsval
  | NotIterable jsval

text \<open>
  The runtime, which is not code of this repository:
  \<^item> \<open>JSON_parse\<close>, which may throw, and \<open>JSON_stringify\<close> (\<^verbatim>\<open>JSON.stringify(v, null, 2)\<close>);
  \<^item> \<open>fault_message\<close>: the text of the message of each TypeError, which is the engine's;
  \<^item> \<open>inherits v k\<close>: whether the value \<open>v\<close>, which has no own property \<open>k\<close>, finds \<open>k\<close>
    on its prototype chain (\<^verbatim>\<open>constructor\<close>, \<^verbatim>\<open>toString\<close>, \<^verbatim>\<open>valueOf\<close> and so on; the
    methods of arrays and strings differ with the version of the engine).
\<close>

record js_engine =
  JSON_parse :: "jstring \<Rightarrow> js_error + jsval"
  JSON_stringify :: "jsval \<Rightarrow> jstring"
  fault_message :: "fault \<Rightarrow> jstring"
  inherits :: "jsval \<Rightarrow> jstring \<Rightarrow> bool"

definition TypeError :: "js_engine \<Rightarrow> fault \<Rightarrow> js_error" where
  "TypeError rt f = new_Error (fault_message rt f)"

definition bind_err :: "js_error + 'a \<Rightarrow> ('a \<Rightarrow> js_error + 'b) \<Rightarrow> js_error + 'b" where
  "bind_err r f = (case r of Inl e \<Rightarrow> Inl e | Inr x \<Rightarrow> f x)"

subsection \<open>Truthiness\<close>

fun truthy :: "jsval \<Rightarrow> bool" where
  "truthy JUndefined = False"
| "truthy JNull = False"
| "truthy (JBool b) = b"
| "truthy (JNum n) = (n \<noteq> 0)"
| "truthy (JStr s) = (s \<noteq> [])"
| "truthy (JArr xs) = True"
| "truthy (JObj fs) = True"

text \<open>An optional string argument (\<^verbatim>\<open>string | undefined\<close>) in a condition and in a template.\<close>

fun truthy_opt :: "jstring option \<Rightarrow> bool" where
  "truthy_opt None = False"
| "truthy_opt (Some s) = (s \<noteq> [])"

fun opt_text :: "jstring option \<Rightarrow> jstring" where
  "opt_text None = ascii ''undefined''"
| "opt_text (Some s) = s"

subsection \<open>Conversion to text, as a template literal does it\<close>

fun digits :: "nat \<Rightarrow> string" where
  "digits n =
     (if n < 10 then [''0123456789'' ! n]
      else digits (n div 10) @ [''0123456789'' ! (n mod 10)])"

declare digits.simps [simp del]

definition show_int :: "js_int \<Rightarrow> string" where
  "show_int n = (if sint n < 0 then CHR ''-'' # digits (nat (- sint n)) else digits (nat (sint n)))"

fun join :: "jstring \<Rightarrow> jstring list \<Rightarrow> jstring" where
  "join sep [] = []"
| "join sep [x] = x"
| "join sep (x # y # ys) = x @ sep @ join sep (y # ys)"

text \<open>
  \<^verbatim>\<open>`${v}`\<close>. An object is converted by the \<^verbatim>\<open>toString\<close> it finds: the inherited one
  prints \<^verbatim>\<open>[object Object]\<close>; an own entry of that name, which in JSON data is never a
  function, leaves the object without a primitive value, and the conversion throws. An
  array prints its elements separated by commas, \<^verbatim>\<open>undefined\<close> and \<^verbatim>\<open>null\<close> as
  nothing, and throws where an element does.
\<close>

fun ToString :: "js_engine \<Rightarrow> jsval \<Rightarrow> js_error + jstring"
  and ToString_elements :: "js_engine \<Rightarrow> jsval list \<Rightarrow> js_error + jstring list" where
  "ToString rt JUndefined = Inr (ascii ''undefined'')"
| "ToString rt JNull = Inr (ascii ''null'')"
| "ToString rt (JBool b) = Inr (if b then ascii ''true'' else ascii ''false'')"
| "ToString rt (JNum n) = Inr (ascii (show_int n))"
| "ToString rt (JStr s) = Inr s"
| "ToString rt (JArr xs) =
     (case ToString_elements rt xs of Inl e \<Rightarrow> Inl e | Inr ss \<Rightarrow> Inr (join (ascii '','') ss))"
| "ToString rt (JObj fs) =
     (if ascii ''toString'' \<in> set (map fst fs) then Inl (TypeError rt (NoPrimitive (JObj fs)))
      else Inr (ascii ''[object Object]''))"
| "ToString_elements rt [] = Inr []"
| "ToString_elements rt (x # xs) =
     (case (if x = JUndefined \<or> x = JNull then Inr [] else ToString rt x) of
        Inl e \<Rightarrow> Inl e
      | Inr s \<Rightarrow> (case ToString_elements rt xs of Inl e \<Rightarrow> Inl e | Inr ss \<Rightarrow> Inr (s # ss)))"

subsection \<open>Reading a property\<close>

text \<open>
  The names the program reads with a dot. None of them is defined by a prototype of the
  runtime, so such a read finds an own property or nothing: the entry of an object, the
  \<^verbatim>\<open>length\<close> of an array or of a string (which the runtime keeps far below
  \<open>2 ^ 53\<close>), and \<^verbatim>\<open>undefined\<close> otherwise.
\<close>

datatype field = F_number | F_project | F_current_revision | F_revisions | F_subject | F_message | F_length

fun field_name :: "field \<Rightarrow> jstring" where
  "field_name F_number = ascii ''_number''"
| "field_name F_project = ascii ''project''"
| "field_name F_current_revision = ascii ''current_revision''"
| "field_name F_revisions = ascii ''revisions''"
| "field_name F_subject = ascii ''subject''"
| "field_name F_message = ascii ''message''"
| "field_name F_length = ascii ''length''"

definition js_length :: "'a list \<Rightarrow> jsval" where
  "js_length xs = JNum (of_nat (min (length xs) (2 ^ 53 - 1)))"

fun js_prop :: "jsval \<Rightarrow> field \<Rightarrow> jsval" where
  "js_prop (JObj fs) f = (case map_of fs (field_name f) of None \<Rightarrow> JUndefined | Some v \<Rightarrow> v)"
| "js_prop (JArr xs) f = (if f = F_length then js_length xs else JUndefined)"
| "js_prop (JStr s) f = (if f = F_length then js_length s else JUndefined)"
| "js_prop v f = JUndefined"

text \<open>\<^verbatim>\<open>v.k\<close>, which throws on \<^verbatim>\<open>undefined\<close> and \<^verbatim>\<open>null\<close>, and optional chaining, \<^verbatim>\<open>v?.k\<close>.\<close>

definition js_get :: "js_engine \<Rightarrow> jsval \<Rightarrow> field \<Rightarrow> js_error + jsval" where
  "js_get rt v f =
     (if v = JUndefined \<or> v = JNull then Inl (TypeError rt (NullishRead v (JStr (field_name f))))
      else Inr (js_prop v f))"

definition opt_chain :: "jsval \<Rightarrow> field \<Rightarrow> jsval" where
  "opt_chain v f = (if v = JUndefined \<or> v = JNull then JUndefined else js_prop v f)"

text \<open>
  \<^verbatim>\<open>v[key]\<close> with a computed key, which the program does once
  (\<^verbatim>\<open>change.revisions[currentRev]\<close>). The key is converted to text. The result is an own
  property (an entry, the \<^verbatim>\<open>length\<close>, an element at a canonical index), or something
  built into the runtime that the value inherits under that name, or \<^verbatim>\<open>undefined\<close>.
\<close>

datatype member = Own jsval | Builtin

definition js_index :: "'a list \<Rightarrow> jstring \<Rightarrow> 'a option" where
  "js_index xs k =
     (case filter (\<lambda>i. ascii (digits i) = k) [0..<length xs] of
        [] \<Rightarrow> None
      | i # _ \<Rightarrow> Some (xs ! i))"

definition or_inherited :: "js_engine \<Rightarrow> jsval \<Rightarrow> jstring \<Rightarrow> member" where
  "or_inherited rt v k = (if inherits rt v k then Builtin else Own JUndefined)"

fun own_or_inherited :: "js_engine \<Rightarrow> jsval \<Rightarrow> jstring \<Rightarrow> member" where
  "own_or_inherited rt (JObj fs) k =
     (case map_of fs k of Some v \<Rightarrow> Own v | None \<Rightarrow> or_inherited rt (JObj fs) k)"
| "own_or_inherited rt (JArr xs) k =
     (if k = ascii ''length'' then Own (js_length xs)
      else case js_index xs k of Some v \<Rightarrow> Own v | None \<Rightarrow> or_inherited rt (JArr xs) k)"
| "own_or_inherited rt (JStr s) k =
     (if k = ascii ''length'' then Own (js_length s)
      else case js_index s k of Some u \<Rightarrow> Own (JStr [u]) | None \<Rightarrow> or_inherited rt (JStr s) k)"
| "own_or_inherited rt v k = or_inherited rt v k"

definition js_member :: "js_engine \<Rightarrow> jsval \<Rightarrow> jsval \<Rightarrow> js_error + member" where
  "js_member rt v key =
     (if v = JUndefined \<or> v = JNull then Inl (TypeError rt (NullishRead v key))
      else bind_err (ToString rt key) (\<lambda>k. Inr (own_or_inherited rt v k)))"

text \<open>
  \<^verbatim>\<open>m._number\<close> of the result of such a read: nothing built into the runtime has a
  property of that name.
\<close>

fun member_get :: "js_engine \<Rightarrow> member \<Rightarrow> field \<Rightarrow> js_error + jsval" where
  "member_get rt (Own v) f = js_get rt v f"
| "member_get rt Builtin f = Inr JUndefined"

subsection \<open>Iterating with \<^verbatim>\<open>for ... of\<close>\<close>

definition high_surrogate :: "16 word \<Rightarrow> bool" where
  "high_surrogate u = (0xD800 \<le> u \<and> u \<le> 0xDBFF)"

definition low_surrogate :: "16 word \<Rightarrow> bool" where
  "low_surrogate u = (0xDC00 \<le> u \<and> u \<le> 0xDFFF)"

fun code_points :: "jstring \<Rightarrow> jstring list" where
  "code_points [] = []"
| "code_points [u] = [[u]]"
| "code_points (u # v # rest) =
     (if high_surrogate u \<and> low_surrogate v then [u, v] # code_points rest
      else [u] # code_points (v # rest))"

text \<open>
  An array yields its elements, a string its characters; nothing else that can be in
  a response body is iterable.
\<close>

fun js_iterate :: "js_engine \<Rightarrow> jsval \<Rightarrow> js_error + jsval list" where
  "js_iterate rt (JArr xs) = Inr xs"
| "js_iterate rt (JStr s) = Inr (map JStr (code_points s))"
| "js_iterate rt v = Inl (TypeError rt (NotIterable v))"

section \<open>The response unwrapper\<close>

text \<open>
  \<^verbatim>\<open>
  const parseGerritResponse = (data: string) => {
    if (typeof data === "string" && data.startsWith(")]}'")) {
      return JSON.parse(data.substring(4));
    }
    return data;
  };
  \<close>
  \<^verbatim>\<open>JSON.parse\<close> is the runtime's: it is the parameter \<open>parse\<close>, and it may throw.
\<close>

definition magic_prefix :: jstring where
  "magic_prefix = ascii [CHR '')'', CHR '']'', CHR ''}'', CHR 0x27]"

fun parseGerritResponse :: "(jstring \<Rightarrow> js_error + jsval) \<Rightarrow> jsval \<Rightarrow> js_error + jsval" where
  "parseGerritResponse parse (JStr s) =
     (if take 4 s = magic_prefix then parse (drop 4 s) else Inr (JStr s))"
| "parseGerritResponse parse v = Inr v"

section \<open>Effects and the environment\<close>

text \<open>
  What the handler does to the outside world, in the order it does it: requests of the
  HTTP client (\<^verbatim>\<open>gerritApi.get(url, {params})\<close>, \<^verbatim>\<open>gerritApi.post(url, body)\<close>; the flag
  says whether the call passes \<^verbatim>\<open>transformResponse: [(data) => data]\<close>), the pause
  \<^verbatim>\<open>setTimeout(resolve, ms)\<close>, a line on standard error and a child process.
\<close>

datatype call =
    Get jstring jsval bool
  | Post jstring jsval bool
  | SetTimeout nat
  | ConsoleError jstring
  | ExecSync jstring

text \<open>The calls that change something at the review server or in the local checkout.\<close>

fun mutating :: "call \<Rightarrow> bool" where
  "mutating (Post url body raw) = True"
| "mutating (ExecSync cmd) = True"
| "mutating c = False"

text \<open>The arguments of each tool after validation, in the order of the schema's fields.\<close>

type_synonym ListChangesArgs = "jstring \<times> js_int"
type_synonym GetChangeArgs = "jstring"
type_synonym SetReviewArgs = "jstring \<times> jstring \<times> jstring option \<times> (jstring \<times> js_int) list option"
type_synonym SyncGerritArgs = "jstring option \<times> jstring option"
type_synonym SubmitChangesArgs = "jstring list"
type_synonym BatchReviewSubmitArgs = "jstring \<times> js_int \<times> js_int"

text \<open>
  The collaborators of the handler, which are not code of this repository. An answer
  may depend on everything done before (the trace of calls so far):
  \<^item> \<open>engine\<close>: the runtime;
  \<^item> \<open>adapter\<close>: the HTTP client before the interceptors of this program run: the body of
    the answer, or the rejection;
  \<^item> \<open>execSync\<close>: \<open>None\<close> when the child process exits with status 0, the error thrown
    otherwise;
  \<^item> the six schemas: \<^verbatim>\<open>Schema.parse(args)\<close> returns the validated arguments or throws.
\<close>

record env =
  engine :: js_engine
  adapter :: "call list \<Rightarrow> call \<Rightarrow> js_error + jsval"
  execSync :: "call list \<Rightarrow> jstring \<Rightarrow> js_error option"
  ListChangesSchema :: "jsval \<Rightarrow> js_error + ListChangesArgs"
  GetChangeSchema :: "jsval \<Rightarrow> js_error + GetChangeArgs"
  SetReviewSchema :: "jsval \<Rightarrow> js_error + SetReviewArgs"
  SyncGerritSchema :: "jsval \<Rightarrow> js_error + SyncGerritArgs"
  SubmitChangesSchema :: "jsval \<Rightarrow> js_error + SubmitChangesArgs"
  BatchReviewSubmitSchema :: "jsval \<Rightarrow> js_error + BatchReviewSubmitArgs"

text \<open>
  A request through \<^verbatim>\<open>gerritApi\<close>, with the two interceptors:
  \<^verbatim>\<open>
  gerritApi.interceptors.response.use((response) => {
    response.data = parseGerritResponse(response.data);
    return response;
  }, (error) => {
    if (error.response && error.response.data) {
      error.response.data = parseGerritResponse(error.response.data);
    }
    return Promise.reject(error);
  });
  \<close>
  The result is \<^verbatim>\<open>response.data\<close> of the resolved promise, or the rejection.
\<close>

definition gerritApi :: "env \<Rightarrow> call list \<Rightarrow> call \<Rightarrow> js_error + jsval" where
  "gerritApi env tr c =
     (case adapter env tr c of
        Inr data \<Rightarrow> parseGerritResponse (JSON_parse (engine env)) data
      | Inl error \<Rightarrow>
          (case response_data error of
             None \<Rightarrow> Inl error
           | Some d \<Rightarrow>
               if truthy d
               then (case parseGerritResponse (JSON_parse (engine env)) d of
                       Inl e \<Rightarrow> Inl e
                     | Inr d' \<Rightarrow> Inl (error\<lparr>response_data := Some d'\<rparr>))
               else Inl error))"

section \<open>The tool-call handler\<close>

record tool_result =
  content_text :: jstring
  isError :: bool

definition ok :: "jstring \<Rightarrow> tool_result" where
  "ok t = \<lparr>content_text = t, isError = False\<rparr>"

definition check_mark :: jstring where
  "check_mark = [0x2713]"

definition cross_mark :: jstring where
  "cross_mark = [0x2717]"

definition dquote :: jstring where
  "dquote = ascii [CHR 0x22]"

definition newline :: jstring where
  "newline = ascii [CHR 0x0A]"

definition opt_jsval :: "jstring option \<Rightarrow> jsval" where
  "opt_jsval x = (case x of None \<Rightarrow> JUndefined | Some s \<Rightarrow> JStr s)"

definition labels_jsval :: "(jstring \<times> js_int) list option \<Rightarrow> jsval" where
  "labels_jsval x =
     (case x of None \<Rightarrow> JUndefined | Some ls \<Rightarrow> JObj (map (\<lambda>(k, v). (k, JNum v)) ls))"

text \<open>\<^verbatim>\<open>e.response?.data || e.message\<close>, the detail of a line of a batch report.\<close>

definition detail :: "js_error \<Rightarrow> jsval" where
  "detail e =
     (case response_data e of
        None \<Rightarrow> JStr (message e)
      | Some d \<Rightarrow> if truthy d then d else JStr (message e))"

text \<open>\<^verbatim>\<open>error.response?.data?.message || error.message\<close>, of the handler's own catch.\<close>

definition errorMessage :: "js_error \<Rightarrow> jsval" where
  "errorMessage error =
     (let m = opt_chain (case response_data error of None \<Rightarrow> JUndefined | Some d \<Rightarrow> d) F_message
      in if truthy m then m else JStr (message error))"

text \<open>\<^verbatim>\<open>!changes || changes.length === 0\<close>\<close>

definition no_changes :: "jsval \<Rightarrow> bool" where
  "no_changes changes = (\<not> truthy changes \<or> js_prop changes F_length = JNum 0)"

subsection \<open>The loop of a batch tool\<close>

text \<open>
  \<^verbatim>\<open>const results = []; for (const change of changes) { ... results.push(line) ... }\<close>
  The body of the loop, run after the calls \<open>tr\<close>, pushes one line (\<open>Inr\<close>) or lets an
  exception out of the loop (\<open>Inl\<close>), and extends the trace.
\<close>

fun for_of ::
  "(call list \<Rightarrow> 'a \<Rightarrow> (js_error + jstring) \<times> call list) \<Rightarrow> call list \<Rightarrow> jstring list \<Rightarrow> 'a list
     \<Rightarrow> (js_error + jstring list) \<times> call list" where
  "for_of body tr results [] = (Inr results, tr)"
| "for_of body tr results (change # rest) =
     (case body tr change of
        (Inl e, tr') \<Rightarrow> (Inl e, tr')
      | (Inr line, tr') \<Rightarrow> for_of body tr' (results @ [line]) rest)"

subsection \<open>\<^verbatim>\<open>submit_changes\<close>\<close>

definition submit_call :: "jstring \<Rightarrow> call" where
  "submit_call changeId =
     Post (ascii ''/changes/'' @ changeId @ ascii ''/submit'')
       (JObj [(ascii ''wait_for_merge'', JBool True)]) False"

text \<open>
  \<^verbatim>\<open>
  try {
    await gerritApi.post(`/changes/${changeId}/submit`, { wait_for_merge: true });
    results.push(`<check> Submitted ${changeId}`);
  } catch (e: any) {
    results.push(`<cross> Failed ${changeId}: ${e.response?.data || e.message}`);
  }
  \<close>
  The template of the \<^verbatim>\<open>catch\<close> may throw in its turn; nothing catches that inside the
  loop.
\<close>

definition submit_item :: "env \<Rightarrow> call list \<Rightarrow> jstring \<Rightarrow> (js_error + jstring) \<times> call list" where
  "submit_item env tr changeId =
     (case gerritApi env tr (submit_call changeId) of
        Inr r \<Rightarrow> (Inr (check_mark @ ascii '' Submitted '' @ changeId), tr @ [submit_call changeId])
      | Inl e \<Rightarrow>
          (bind_err (ToString (engine env) (detail e)) (\<lambda>d.
             Inr (cross_mark @ ascii '' Failed '' @ changeId @ ascii '': '' @ d)),
           tr @ [submit_call changeId]))"

subsection \<open>\<^verbatim>\<open>batch_review_submit_by_topic\<close>\<close>

text \<open>The two requests for a change whose number, as text, is \<open>n\<close>.\<close>

definition review_call :: "js_int \<Rightarrow> js_int \<Rightarrow> jstring \<Rightarrow> call" where
  "review_call voteVerified voteReview n =
     Post (ascii ''/changes/'' @ n @ ascii ''/revisions/current/review'')
       (JObj [(ascii ''labels'',
               JObj [(ascii ''Verified'', JNum voteVerified), (ascii ''Code-Review'', JNum voteReview)]),
              (ascii ''message'', JStr (ascii ''Batch review and submit by MCP Server''))])
       False"

text \<open>
  The body of the \<^verbatim>\<open>try\<close>: the line pushed, or the exception for the \<^verbatim>\<open>catch\<close>. The
  template of the first URL is where \<^verbatim>\<open>changeId\<close> is first converted to text.
\<close>

definition review_try ::
  "env \<Rightarrow> js_int \<Rightarrow> js_int \<Rightarrow> call list \<Rightarrow> jsval \<Rightarrow> jsval \<Rightarrow> (js_error + jstring) \<times> call list" where
  "review_try env voteVerified voteReview tr change changeId =
     (case ToString (engine env) changeId of
        Inl e \<Rightarrow> (Inl e, tr)
      | Inr n \<Rightarrow>
          (let vote = review_call voteVerified voteReview n;
               submit = submit_call n
           in case gerritApi env tr vote of
                Inl e \<Rightarrow> (Inl e, tr @ [vote])
              | Inr r \<Rightarrow>
                  (case gerritApi env (tr @ [vote, SetTimeout 500]) submit of
                     Inl e \<Rightarrow> (Inl e, tr @ [vote, SetTimeout 500, submit])
                   | Inr r' \<Rightarrow>
                       (bind_err (js_get (engine env) change F_subject) (\<lambda>subject.
                        bind_err (ToString (engine env) subject) (\<lambda>s.
                          Inr (check_mark @ ascii '' Processed '' @ n @ ascii '': '' @ s))),
                        tr @ [vote, SetTimeout 500, submit]))))"

text \<open>The template of the \<^verbatim>\<open>catch\<close>: \<^verbatim>\<open>`<cross> Failed ${changeId}: ${e.response?.data || e.message}`\<close>.\<close>

definition review_catch :: "js_engine \<Rightarrow> jsval \<Rightarrow> js_error \<Rightarrow> js_error + jstring" where
  "review_catch rt changeId e =
     bind_err (ToString rt changeId) (\<lambda>n.
     bind_err (ToString rt (detail e)) (\<lambda>d.
       Inr (cross_mark @ ascii '' Failed '' @ n @ ascii '': '' @ d)))"

definition review_item ::
  "env \<Rightarrow> js_int \<Rightarrow> js_int \<Rightarrow> call list \<Rightarrow> jsval \<Rightarrow> (js_error + jstring) \<times> call list" where
  "review_item env voteVerified voteReview tr change =
     (case js_get (engine env) change F_number of
        Inl e \<Rightarrow> (Inl e, tr)
      | Inr changeId \<Rightarrow>
          (case review_try env voteVerified voteReview tr change changeId of
             (Inr line, tr') \<Rightarrow> (Inr line, tr')
           | (Inl e, tr') \<Rightarrow> (review_catch (engine env) changeId e, tr')))"

subsection \<open>\<^verbatim>\<open>sync_gerrit_to_local\<close>\<close>

definition sync_query :: "jstring option \<Rightarrow> jstring option \<Rightarrow> js_error + jstring" where
  "sync_query topic changeId =
     (if truthy_opt topic then Inr (ascii ''topic:'' @ dquote @ opt_text topic @ dquote)
      else if truthy_opt changeId then Inr (opt_text changeId)
      else Inl (new_Error (ascii ''Either topic or changeId must be provided'')))"

text \<open>
  The five reads at the head of the loop body, outside its \<^verbatim>\<open>try\<close>:
  \<^verbatim>\<open>changeNumber\<close>, \<^verbatim>\<open>project\<close> and \<^verbatim>\<open>patchset\<close> are what the rest uses.
\<close>

definition read_change :: "js_engine \<Rightarrow> jsval \<Rightarrow> js_error + (jsval \<times> jsval \<times> jsval)" where
  "read_change rt change =
     bind_err (js_get rt change F_number) (\<lambda>changeNumber.
     bind_err (js_get rt change F_project) (\<lambda>project.
     bind_err (js_get rt change F_current_revision) (\<lambda>currentRev.
     bind_err (js_get rt change F_revisions) (\<lambda>revisions.
     bind_err (js_member rt revisions currentRev) (\<lambda>revisionData.
     bind_err (member_get rt revisionData F_number) (\<lambda>patchset.
     Inr (changeNumber, project, patchset)))))))"

text \<open>\<^verbatim>\<open>`repo download ${project} ${changeNumber}/${patchset}`\<close>\<close>

definition repo_cmd :: "js_engine \<Rightarrow> jsval \<Rightarrow> jsval \<Rightarrow> jsval \<Rightarrow> js_error + jstring" where
  "repo_cmd rt changeNumber project patchset =
     bind_err (ToString rt project) (\<lambda>p.
     bind_err (ToString rt changeNumber) (\<lambda>n.
     bind_err (ToString rt patchset) (\<lambda>ps.
       Inr (ascii ''repo download '' @ p @ ascii '' '' @ n @ ascii ''/'' @ ps))))"

text \<open>\<^verbatim>\<open>`<check> Synced ${changeNumber}/${patchset} in ${project}: ${change.subject}`\<close>\<close>

definition synced_line :: "js_engine \<Rightarrow> jsval \<Rightarrow> jsval \<Rightarrow> jsval \<Rightarrow> jsval \<Rightarrow> js_error + jstring" where
  "synced_line rt change changeNumber project patchset =
     bind_err (ToString rt changeNumber) (\<lambda>n.
     bind_err (ToString rt patchset) (\<lambda>ps.
     bind_err (ToString rt project) (\<lambda>p.
     bind_err (js_get rt change F_subject) (\<lambda>subject.
     bind_err (ToString rt subject) (\<lambda>s.
       Inr (check_mark @ ascii '' Synced '' @ n @ ascii ''/'' @ ps @ ascii '' in '' @ p @ ascii '': '' @ s))))))"

definition sync_try ::
  "env \<Rightarrow> call list \<Rightarrow> jsval \<Rightarrow> jsval \<Rightarrow> jsval \<Rightarrow> jsval \<Rightarrow> (js_error + jstring) \<times> call list" where
  "sync_try env tr change changeNumber project patchset =
     (case repo_cmd (engine env) changeNumber project patchset of
        Inl e \<Rightarrow> (Inl e, tr)
      | Inr cmd \<Rightarrow>
          (let tr1 = tr @ [ConsoleError (ascii ''Executing: '' @ cmd)]
           in case execSync env tr1 cmd of
                Some e \<Rightarrow> (Inl e, tr1 @ [ExecSync cmd])
              | None \<Rightarrow>
                  (synced_line (engine env) change changeNumber project patchset,
                   tr1 @ [ExecSync cmd])))"

text \<open>The template of the \<^verbatim>\<open>catch\<close>: \<^verbatim>\<open>`<cross> Failed ${changeNumber} in ${project}: ${e.message}`\<close>.\<close>

definition sync_catch :: "js_engine \<Rightarrow> jsval \<Rightarrow> jsval \<Rightarrow> js_error \<Rightarrow> js_error + jstring" where
  "sync_catch rt changeNumber project e =
     bind_err (ToString rt changeNumber) (\<lambda>n.
     bind_err (ToString rt project) (\<lambda>p.
       Inr (cross_mark @ ascii '' Failed '' @ n @ ascii '' in '' @ p @ ascii '': '' @ message e)))"

definition sync_item :: "env \<Rightarrow> call list \<Rightarrow> jsval \<Rightarrow> (js_error + jstring) \<times> call list" where
  "sync_item env tr change =
     (case read_change (engine env) change of
        Inl e \<Rightarrow> (Inl e, tr)
      | Inr (changeNumber, project, patchset) \<Rightarrow>
          (case sync_try env tr change changeNumber project patchset of
             (Inr line, tr') \<Rightarrow> (Inr line, tr')
           | (Inl e, tr') \<Rightarrow> (sync_catch (engine env) changeNumber project e, tr')))"

subsection \<open>The switch over the tool name\<close>

text \<open>
  Everything inside the handler's \<^verbatim>\<open>try\<close>: the result returned, or the exception that
  reaches the handler's \<^verbatim>\<open>catch\<close>; with the trace, which starts from the calls \<open>tr\<close>
  made before this request.
\<close>

definition report :: "(js_error + jstring list) \<times> call list \<Rightarrow> (js_error + tool_result) \<times> call list" where
  "report r =
     (case r of
        (Inl e, tr) \<Rightarrow> (Inl e, tr)
      | (Inr results, tr) \<Rightarrow> (Inr (ok (join newline results)), tr))"

definition list_changes :: "env \<Rightarrow> call list \<Rightarrow> jsval \<Rightarrow> (js_error + tool_result) \<times> call list" where
  "list_changes env tr args =
     (case ListChangesSchema env args of
        Inl e \<Rightarrow> (Inl e, tr)
      | Inr (query, limit) \<Rightarrow>
          (let c = Get (ascii ''/changes/'') (JObj [(ascii ''q'', JStr query), (ascii ''n'', JNum limit)]) True
           in case gerritApi env tr c of
                Inl e \<Rightarrow> (Inl e, tr @ [c])
              | Inr data \<Rightarrow> (Inr (ok (JSON_stringify (engine env) data)), tr @ [c])))"

definition get_change_detail :: "env \<Rightarrow> call list \<Rightarrow> jsval \<Rightarrow> (js_error + tool_result) \<times> call list" where
  "get_change_detail env tr args =
     (case GetChangeSchema env args of
        Inl e \<Rightarrow> (Inl e, tr)
      | Inr changeId \<Rightarrow>
          (let c = Get (ascii ''/changes/'' @ changeId @ ascii ''/detail'')
                     (JObj [(ascii ''o'', JArr [JStr (ascii ''CURRENT_REVISION''),
                                                JStr (ascii ''CURRENT_COMMIT''), JStr (ascii ''LABELS'')])])
                     True
           in case gerritApi env tr c of
                Inl e \<Rightarrow> (Inl e, tr @ [c])
              | Inr data \<Rightarrow> (Inr (ok (JSON_stringify (engine env) data)), tr @ [c])))"

definition set_review :: "env \<Rightarrow> call list \<Rightarrow> jsval \<Rightarrow> (js_error + tool_result) \<times> call list" where
  "set_review env tr args =
     (case SetReviewSchema env args of
        Inl e \<Rightarrow> (Inl e, tr)
      | Inr (changeId, revisionId, msg, labels) \<Rightarrow>
          (let c = Post (ascii ''/changes/'' @ changeId @ ascii ''/revisions/'' @ revisionId @ ascii ''/review'')
                     (JObj [(ascii ''message'', opt_jsval msg), (ascii ''labels'', labels_jsval labels)])
                     True
           in case gerritApi env tr c of
                Inl e \<Rightarrow> (Inl e, tr @ [c])
              | Inr data \<Rightarrow> (Inr (ok (ascii ''Successfully posted review to '' @ changeId)), tr @ [c])))"

definition submit_changes :: "env \<Rightarrow> call list \<Rightarrow> jsval \<Rightarrow> (js_error + tool_result) \<times> call list" where
  "submit_changes env tr args =
     (case SubmitChangesSchema env args of
        Inl e \<Rightarrow> (Inl e, tr)
      | Inr changeIds \<Rightarrow> report (for_of (submit_item env) tr [] changeIds))"

definition topic_call :: "jstring \<Rightarrow> call" where
  "topic_call topic =
     Get (ascii ''/changes/'')
       (JObj [(ascii ''q'', JStr (ascii ''topic:'' @ dquote @ topic @ dquote @ ascii '' status:open''))]) False"

definition batch_review_submit_by_topic ::
  "env \<Rightarrow> call list \<Rightarrow> jsval \<Rightarrow> (js_error + tool_result) \<times> call list" where
  "batch_review_submit_by_topic env tr args =
     (case BatchReviewSubmitSchema env args of
        Inl e \<Rightarrow> (Inl e, tr)
      | Inr (topic, voteVerified, voteReview) \<Rightarrow>
          (case gerritApi env tr (topic_call topic) of
             Inl e \<Rightarrow> (Inl e, tr @ [topic_call topic])
           | Inr changes \<Rightarrow>
               if no_changes changes
               then (Inr (ok (ascii ''No open changes found for topic: '' @ topic)), tr @ [topic_call topic])
               else (case js_iterate (engine env) changes of
                       Inl e \<Rightarrow> (Inl e, tr @ [topic_call topic])
                     | Inr items \<Rightarrow>
                         report (for_of (review_item env voteVerified voteReview)
                                   (tr @ [topic_call topic]) [] items))))"

definition sync_call :: "jstring \<Rightarrow> call" where
  "sync_call query =
     Get (ascii ''/changes/'')
       (JObj [(ascii ''q'', JStr query), (ascii ''o'', JArr [JStr (ascii ''CURRENT_REVISION'')])]) True"

definition sync_gerrit_to_local ::
  "env \<Rightarrow> call list \<Rightarrow> jsval \<Rightarrow> (js_error + tool_result) \<times> call list" where
  "sync_gerrit_to_local env tr args =
     (case SyncGerritSchema env args of
        Inl e \<Rightarrow> (Inl e, tr)
      | Inr (topic, changeId) \<Rightarrow>
          (case sync_query topic changeId of
             Inl e \<Rightarrow> (Inl e, tr)
           | Inr query \<Rightarrow>
               (case gerritApi env tr (sync_call query) of
                  Inl e \<Rightarrow> (Inl e, tr @ [sync_call query])
                | Inr changes \<Rightarrow>
                    if no_changes changes
                    then (Inr (ok (ascii ''No changes found.'')), tr @ [sync_call query])
                    else (case js_iterate (engine env) changes of
                            Inl e \<Rightarrow> (Inl e, tr @ [sync_call query])
                          | Inr items \<Rightarrow>
                              report (for_of (sync_item env) (tr @ [sync_call query]) [] items)))))"

definition tool_names :: "jstring list" where
  "tool_names =
     map ascii [''list_changes'', ''get_change_detail'', ''set_review'', ''submit_changes'',
                ''batch_review_submit_by_topic'', ''sync_gerrit_to_local'']"

definition tool_switch ::
  "env \<Rightarrow> call list \<Rightarrow> jstring \<Rightarrow> jsval \<Rightarrow> (js_error + tool_result) \<times> call list" where
  "tool_switch env tr name args =
     (if name = ascii ''list_changes'' then list_changes env tr args
      else if name = ascii ''get_change_detail'' then get_change_detail env tr args
      else if name = ascii ''set_review'' then set_review env tr args
      else if name = ascii ''submit_changes'' then submit_changes env tr args
      else if name = ascii ''batch_review_submit_by_topic'' then batch_review_submit_by_topic env tr args
      else if name = ascii ''sync_gerrit_to_local'' then sync_gerrit_to_local env tr args
      else (Inl (new_Error (ascii ''Unknown tool: '' @ name)), tr))"

text \<open>
  The handler: the switch inside \<^verbatim>\<open>try\<close>, and the \<^verbatim>\<open>catch\<close>, which turns an exception
  into a result with the error flag:
  \<^verbatim>\<open>
  } catch (error: any) {
    const errorMessage = error.response?.data?.message || error.message;
    return { content: [{ type: "text", text: `Error: ${errorMessage}` }], isError: true };
  }
  \<close>
  The template may throw in its turn, and then the exception leaves the handler
  (\<open>Inl\<close>).
\<close>

definition CallTool ::
  "env \<Rightarrow> call list \<Rightarrow> jstring \<Rightarrow> jsval \<Rightarrow> (js_error + tool_result) \<times> call list" where
  "CallTool env tr name args =
     (case tool_switch env tr name args of
        (Inr result, tr') \<Rightarrow> (Inr result, tr')
      | (Inl error, tr') \<Rightarrow>
          (bind_err (ToString (engine env) (errorMessage error)) (\<lambda>m.
             Inr \<lparr>content_text = ascii ''Error: '' @ m, isError = True\<rparr>),
           tr'))"

section \<open>Vocabulary of the properties\<close>

text \<open>
  The error a single call ends with, if any. The pause and the log line cannot fail.
\<close>

fun call_error :: "env \<Rightarrow> call list \<Rightarrow> call \<Rightarrow> js_error option" where
  "call_error env tr (ExecSync cmd) = execSync env tr cmd"
| "call_error env tr (SetTimeout ms) = None"
| "call_error env tr (ConsoleError s) = None"
| "call_error env tr c = (case gerritApi env tr c of Inl e \<Rightarrow> Some e | Inr r \<Rightarrow> None)"

definition call_fails :: "env \<Rightarrow> call list \<Rightarrow> call \<Rightarrow> bool" where
  "call_fails env tr c = (call_error env tr c \<noteq> None)"

text \<open>
  Running a sequence of steps after the calls \<open>tr\<close>, each step after the ones before it:
  the error of the first step that fails, and the steps that were invoked (all of them
  up to and including the one that failed).
\<close>

fun first_error :: "env \<Rightarrow> call list \<Rightarrow> call list \<Rightarrow> js_error option" where
  "first_error env tr [] = None"
| "first_error env tr (c # cs) =
     (case call_error env tr c of Some e \<Rightarrow> Some e | None \<Rightarrow> first_error env (tr @ [c]) cs)"

fun invoked :: "env \<Rightarrow> call list \<Rightarrow> call list \<Rightarrow> call list" where
  "invoked env tr [] = []"
| "invoked env tr (c # cs) =
     (case call_error env tr c of Some e \<Rightarrow> [c] | None \<Rightarrow> c # invoked env (tr @ [c]) cs)"

text \<open>A value that a template literal converts to text without throwing, and that text.\<close>

definition prints :: "js_engine \<Rightarrow> jsval \<Rightarrow> bool" where
  "prints rt v = (\<not> isl (ToString rt v))"

definition text_of :: "js_engine \<Rightarrow> jsval \<Rightarrow> jstring" where
  "text_of rt v = (case ToString rt v of Inr s \<Rightarrow> s | Inl e \<Rightarrow> [])"

text \<open>
  A value of which \<^verbatim>\<open>_number\<close> can be read, that is, anything but \<^verbatim>\<open>undefined\<close> and
  \<^verbatim>\<open>null\<close>; and an item of the list of \<^verbatim>\<open>batch_review_submit_by_topic\<close> (whose query
  asks for no revisions) as the loop can report it: its number and its subject convert
  to text.
\<close>

definition has_properties :: "jsval \<Rightarrow> bool" where
  "has_properties v = (v \<noteq> JUndefined \<and> v \<noteq> JNull)"

definition review_ok :: "js_engine \<Rightarrow> jsval \<Rightarrow> bool" where
  "review_ok rt change =
     (has_properties change \<and> prints rt (js_prop change F_number) \<and> prints rt (js_prop change F_subject))"

text \<open>
  An item of the list of \<^verbatim>\<open>sync_gerrit_to_local\<close>, a change as the data model has it:
  the reads at the head of the loop body succeed, that is, the change has a revision
  under the key of its current revision (\<open>is_change\<close>); and number, project, patchset and
  subject convert to text.
\<close>

definition is_change :: "js_engine \<Rightarrow> jsval \<Rightarrow> bool" where
  "is_change rt change = (\<not> isl (read_change rt change))"

definition patchset_of :: "js_engine \<Rightarrow> jsval \<Rightarrow> jsval" where
  "patchset_of rt change =
     (case read_change rt change of Inr (changeNumber, project, patchset) \<Rightarrow> patchset | Inl e \<Rightarrow> JUndefined)"

definition sync_ok :: "js_engine \<Rightarrow> jsval \<Rightarrow> bool" where
  "sync_ok rt change =
     (is_change rt change \<and> prints rt (js_prop change F_number) \<and> prints rt (js_prop change F_project) \<and>
      prints rt (patchset_of rt change) \<and> prints rt (js_prop change F_subject))"

text \<open>The steps of each action on one change, in the order of the source.\<close>

definition review_steps :: "js_int \<Rightarrow> js_int \<Rightarrow> js_engine \<Rightarrow> jsval \<Rightarrow> call list" where
  "review_steps voteVerified voteReview rt change =
     [review_call voteVerified voteReview (text_of rt (js_prop change F_number)),
      SetTimeout 500,
      submit_call (text_of rt (js_prop change F_number))]"

definition sync_cmd :: "js_engine \<Rightarrow> jsval \<Rightarrow> jstring" where
  "sync_cmd rt change =
     ascii ''repo download '' @ text_of rt (js_prop change F_project) @ ascii '' ''
       @ text_of rt (js_prop change F_number) @ ascii ''/'' @ text_of rt (patchset_of rt change)"

definition sync_steps :: "js_engine \<Rightarrow> jsval \<Rightarrow> call list" where
  "sync_steps rt change =
     [ConsoleError (ascii ''Executing: '' @ sync_cmd rt change), ExecSync (sync_cmd rt change)]"

text \<open>The line of the report for one change, given the error its steps ended with.\<close>

fun review_line :: "js_engine \<Rightarrow> jsval \<Rightarrow> js_error option \<Rightarrow> jstring" where
  "review_line rt change None =
     check_mark @ ascii '' Processed '' @ text_of rt (js_prop change F_number) @ ascii '': ''
       @ text_of rt (js_prop change F_subject)"
| "review_line rt change (Some e) =
     cross_mark @ ascii '' Failed '' @ text_of rt (js_prop change F_number) @ ascii '': ''
       @ text_of rt (detail e)"

fun sync_line :: "js_engine \<Rightarrow> jsval \<Rightarrow> js_error option \<Rightarrow> jstring" where
  "sync_line rt change None =
     check_mark @ ascii '' Synced '' @ text_of rt (js_prop change F_number) @ ascii ''/''
       @ text_of rt (patchset_of rt change) @ ascii '' in '' @ text_of rt (js_prop change F_project)
       @ ascii '': '' @ text_of rt (js_prop change F_subject)"
| "sync_line rt change (Some e) =
     cross_mark @ ascii '' Failed '' @ text_of rt (js_prop change F_number) @ ascii '' in ''
       @ text_of rt (js_prop change F_project) @ ascii '': '' @ message e"

definition marked_success :: "jstring \<Rightarrow> bool" where
  "marked_success line = (take 2 line = check_mark @ ascii '' '')"

definition marked_failed :: "jstring \<Rightarrow> bool" where
  "marked_failed line = (take 9 line = cross_mark @ ascii '' Failed '')"

text \<open>The calls made before the loop reaches item \<open>i\<close> of the list.\<close>

definition trace_before ::
  "(call list \<Rightarrow> 'a \<Rightarrow> (js_error + jstring) \<times> call list) \<Rightarrow> call list \<Rightarrow> 'a list \<Rightarrow> nat \<Rightarrow> call list" where
  "trace_before body tr items i = snd (for_of body tr [] (take i items))"

section \<open>Concrete environments\<close>

text \<open>
  Small worlds on which the theorems below are run.

  The runtime: a parser and a printer that know the empty list, the texts of the
  TypeErrors as V8 words them, and the names that every value inherits from
  \<^verbatim>\<open>Object.prototype\<close>.
\<close>

definition demo_parse :: "jstring \<Rightarrow> js_error + jsval" where
  "demo_parse s = (if s = ascii ''[]'' then Inr (JArr []) else Inl (new_Error (ascii ''Unexpected token'')))"

fun demo_fault :: "fault \<Rightarrow> jstring" where
  "demo_fault (NullishRead v (JStr k)) =
     ascii ''Cannot read properties of '' @ (if v = JNull then ascii ''null'' else ascii ''undefined'')
       @ ascii '' (reading '' @ ascii [CHR 0x27] @ k @ ascii [CHR 0x27] @ ascii '')''"
| "demo_fault (NullishRead v key) =
     ascii ''Cannot read properties of '' @ (if v = JNull then ascii ''null'' else ascii ''undefined'')"
| "demo_fault (NoPrimitive v) = ascii ''Cannot convert object to primitive value''"
| "demo_fault (NotIterable v) = ascii ''changes is not iterable''"

definition demo_inherits :: "jsval \<Rightarrow> jstring \<Rightarrow> bool" where
  "demo_inherits v k =
     (k \<in> set (map ascii [''constructor'', ''toString'', ''valueOf'', ''toLocaleString'', ''hasOwnProperty'',
                          ''isPrototypeOf'', ''propertyIsEnumerable'', ''__proto__'', ''__defineGetter__'',
                          ''__defineSetter__'', ''__lookupGetter__'', ''__lookupSetter__'']))"

definition demo_engine :: js_engine where
  "demo_engine =
     \<lparr>JSON_parse = demo_parse, JSON_stringify = (\<lambda>v. ascii ''[]''),
      fault_message = demo_fault, inherits = demo_inherits\<rparr>"

text \<open>
  The schemas, as zod reads flat objects: the arguments must be an object, a field that
  is absent takes its default or is left out where the schema allows it, and a field of
  the wrong type is refused (the text of zod's message is not reproduced).
\<close>

definition refused :: js_error where
  "refused = new_Error (ascii ''Invalid arguments'')"

fun arg :: "jsval \<Rightarrow> string \<Rightarrow> jsval" where
  "arg (JObj fs) k = (case map_of fs (ascii k) of None \<Rightarrow> JUndefined | Some v \<Rightarrow> v)"
| "arg v k = JUndefined"

fun is_object :: "jsval \<Rightarrow> bool" where
  "is_object (JObj fs) = True"
| "is_object v = False"

fun z_string :: "jsval \<Rightarrow> js_error + jstring" where
  "z_string (JStr s) = Inr s"
| "z_string v = Inl refused"

fun z_number :: "jsval \<Rightarrow> js_error + js_int" where
  "z_number (JNum n) = Inr n"
| "z_number v = Inl refused"

definition z_optional :: "(jsval \<Rightarrow> js_error + 'a) \<Rightarrow> jsval \<Rightarrow> js_error + 'a option" where
  "z_optional p v = (if v = JUndefined then Inr None else bind_err (p v) (\<lambda>x. Inr (Some x)))"

definition z_default :: "(jsval \<Rightarrow> js_error + 'a) \<Rightarrow> 'a \<Rightarrow> jsval \<Rightarrow> js_error + 'a" where
  "z_default p d v = (if v = JUndefined then Inr d else p v)"

fun z_all :: "('b \<Rightarrow> js_error + 'a) \<Rightarrow> 'b list \<Rightarrow> js_error + 'a list" where
  "z_all p [] = Inr []"
| "z_all p (x # xs) = bind_err (p x) (\<lambda>y. bind_err (z_all p xs) (\<lambda>ys. Inr (y # ys)))"

fun z_array :: "(jsval \<Rightarrow> js_error + 'a) \<Rightarrow> jsval \<Rightarrow> js_error + 'a list" where
  "z_array p (JArr xs) = z_all p xs"
| "z_array p v = Inl refused"

fun z_record :: "(jsval \<Rightarrow> js_error + 'a) \<Rightarrow> jsval \<Rightarrow> js_error + (jstring \<times> 'a) list" where
  "z_record p (JObj fs) = z_all (\<lambda>(k, v). bind_err (p v) (\<lambda>x. Inr (k, x))) fs"
| "z_record p v = Inl refused"

definition demo_ListChangesSchema :: "jsval \<Rightarrow> js_error + ListChangesArgs" where
  "demo_ListChangesSchema args =
     (if is_object args
      then bind_err (z_default z_string (ascii ''status:open'') (arg args ''query'')) (\<lambda>query.
           bind_err (z_default z_number 10 (arg args ''limit'')) (\<lambda>limit. Inr (query, limit)))
      else Inl refused)"

definition demo_GetChangeSchema :: "jsval \<Rightarrow> js_error + GetChangeArgs" where
  "demo_GetChangeSchema args = (if is_object args then z_string (arg args ''changeId'') else Inl refused)"

definition demo_SetReviewSchema :: "jsval \<Rightarrow> js_error + SetReviewArgs" where
  "demo_SetReviewSchema args =
     (if is_object args
      then bind_err (z_string (arg args ''changeId'')) (\<lambda>changeId.
           bind_err (z_default z_string (ascii ''current'') (arg args ''revisionId'')) (\<lambda>revisionId.
           bind_err (z_optional z_string (arg args ''message'')) (\<lambda>msg.
           bind_err (z_optional (z_record z_number) (arg args ''labels'')) (\<lambda>labels.
             Inr (changeId, revisionId, msg, labels)))))
      else Inl refused)"

definition demo_SyncGerritSchema :: "jsval \<Rightarrow> js_error + SyncGerritArgs" where
  "demo_SyncGerritSchema args =
     (if is_object args
      then bind_err (z_optional z_string (arg args ''topic'')) (\<lambda>topic.
           bind_err (z_optional z_string (arg args ''changeId'')) (\<lambda>changeId. Inr (topic, changeId)))
      else Inl refused)"

definition demo_SubmitChangesSchema :: "jsval \<Rightarrow> js_error + SubmitChangesArgs" where
  "demo_SubmitChangesSchema args =
     (if is_object args then z_array z_string (arg args ''changeIds'') else Inl refused)"

definition demo_BatchReviewSubmitSchema :: "jsval \<Rightarrow> js_error + BatchReviewSubmitArgs" where
  "demo_BatchReviewSubmitSchema args =
     (if is_object args
      then bind_err (z_string (arg args ''topic'')) (\<lambda>topic.
           bind_err (z_default z_number 1 (arg args ''voteVerified'')) (\<lambda>voteVerified.
           bind_err (z_default z_number 2 (arg args ''voteReview'')) (\<lambda>voteReview.
             Inr (topic, voteVerified, voteReview))))
      else Inl refused)"

text \<open>
  The world: an HTTP client that rejects one given call with status 409 and a given body
  and answers every other call with an empty list, or that answers one given call with
  a given list; and a child process that fails on one given command.
\<close>

definition rejecting :: "call \<Rightarrow> jsval \<Rightarrow> call list \<Rightarrow> call \<Rightarrow> js_error + jsval" where
  "rejecting bad body tr c =
     (if c = bad
      then Inl \<lparr>message = ascii ''Request failed with status code 409'', response_data = Some body\<rparr>
      else Inr (JArr []))"

definition answering ::
  "call \<Rightarrow> jsval \<Rightarrow> (call list \<Rightarrow> call \<Rightarrow> js_error + jsval) \<Rightarrow> call list \<Rightarrow> call \<Rightarrow> js_error + jsval" where
  "answering q answer ad tr c = (if c = q then Inr answer else ad tr c)"

definition failing :: "jstring \<Rightarrow> call list \<Rightarrow> jstring \<Rightarrow> js_error option" where
  "failing bad tr cmd = (if cmd = bad then Some (new_Error (ascii ''Command failed: '' @ cmd)) else None)"

definition demo_env ::
  "(call list \<Rightarrow> call \<Rightarrow> js_error + jsval) \<Rightarrow> (call list \<Rightarrow> jstring \<Rightarrow> js_error option) \<Rightarrow> env" where
  "demo_env ad ex =
     \<lparr>engine = demo_engine, adapter = ad, execSync = ex,
      ListChangesSchema = demo_ListChangesSchema,
      GetChangeSchema = demo_GetChangeSchema,
      SetReviewSchema = demo_SetReviewSchema,
      SyncGerritSchema = demo_SyncGerritSchema,
      SubmitChangesSchema = demo_SubmitChangesSchema,
      BatchReviewSubmitSchema = demo_BatchReviewSubmitSchema\<rparr>"

text \<open>
  Changes: one with its revisions (\<open>demo_change\<close>), one as a query without options
  returns it (\<open>open_change\<close>), each with a given subject; and a value that does not
  convert to text.
\<close>

definition demo_change :: "js_int \<Rightarrow> jsval \<Rightarrow> jsval" where
  "demo_change n subject =
     JObj [(ascii ''_number'', JNum n), (ascii ''project'', JStr (ascii ''app'')), (ascii ''subject'', subject),
           (ascii ''current_revision'', JStr (ascii ''r1'')),
           (ascii ''revisions'', JObj [(ascii ''r1'', JObj [(ascii ''_number'', JNum 3)])])]"

definition open_change :: "js_int \<Rightarrow> jsval \<Rightarrow> jsval" where
  "open_change n subject =
     JObj [(ascii ''_number'', JNum n), (ascii ''project'', JStr (ascii ''app'')), (ascii ''subject'', subject)]"

definition a_fix :: jsval where
  "a_fix = JStr (ascii ''fix'')"

definition no_text :: jsval where
  "no_text = JObj [(ascii ''toString'', JNum 1)]"

section \<open>Text\<close>

lemma of_char_small: "(of_char c :: nat) < 256"
  by (cases c) simp

lemma unit_inj: "((of_nat (of_char c) :: 16 word) = of_nat (of_char d)) = (c = d)"
proof -
  have "(of_char c :: nat) < 65536" "(of_char d :: nat) < 65536"
    using of_char_small [of c] of_char_small [of d] by arith+
  then show ?thesis
    by (auto simp: word_of_nat_eq_iff take_bit_nat_eq_self)
qed

lemma ascii_inj: "(ascii s = ascii t) = (s = t)"
  unfolding ascii_def by (rule inj_map_eq_map) (simp add: inj_on_def unit_inj)

lemma ascii_Nil: "ascii [] = []"
  by (simp add: ascii_def)

lemma ascii_eq_Nil: "(ascii s = []) = (s = [])" "([] = ascii s) = (s = [])"
  by (auto simp: ascii_def)

lemma ascii_append: "ascii s @ ascii t = ascii (s @ t)" "ascii s @ ascii t @ u = ascii (s @ t) @ u"
  by (simp_all add: ascii_def)

lemma ascii_take_drop: "take n (ascii s) = ascii (take n s)" "drop n (ascii s) = ascii (drop n s)"
  by (simp_all add: ascii_def take_map drop_map)

lemmas ascii_simps = ascii_inj ascii_Nil ascii_eq_Nil ascii_append ascii_take_drop

lemma small_zero: "n < 2 ^ 54 \<Longrightarrow> ((of_nat n :: js_int) = 0) = (n = 0)"
  using nat_dvd_not_less [of n "2 ^ 54"]
  by (cases "n = 0") (simp_all add: word_of_nat_eq_0_iff)

lemma js_length_zero: "(js_length xs = JNum 0) = (xs = [])"
proof -
  have "min (length xs) (2 ^ 53 - 1) < (2::nat) ^ 54" by simp
  from small_zero [OF this] show ?thesis by (auto simp: js_length_def min_def)
qed

lemma prints_text: "prints rt v \<Longrightarrow> ToString rt v = Inr (text_of rt v)"
  by (cases "ToString rt v") (simp_all add: prints_def text_of_def)

section \<open>The loop of a batch tool: general facts\<close>

lemma for_of_append:
  "for_of body tr res (xs @ ys) =
     (case for_of body tr res xs of (Inl e, t) \<Rightarrow> (Inl e, t) | (Inr ls, t) \<Rightarrow> for_of body t ls ys)"
  by (induction xs arbitrary: tr res) (auto split: prod.splits sum.splits)

text \<open>
  When the body lets no exception out on any item of the list, run where the loop runs
  it, the loop pushes one line per item, in the order of the list, each computed by the
  body on that item after the calls made for the items before it.
\<close>

lemma for_of_pushes:
  assumes "\<forall>i<length items. \<exists>l t'. body (trace_before body tr items i) (items ! i) = (Inr l, t')"
  shows "\<exists>lines. for_of body tr [] items = (Inr lines, trace_before body tr items (length items)) \<and>
           length lines = length items \<and>
           (\<forall>i<length items. body (trace_before body tr items i) (items ! i)
               = (Inr (lines ! i), trace_before body tr items (Suc i)))"
  using assms
proof (induction items rule: rev_induct)
  case Nil
  then show ?case by (simp add: trace_before_def)
next
  case (snoc x xs)
  have tb: "trace_before body tr (xs @ [x]) i = trace_before body tr xs i" if "i \<le> length xs" for i
    using that by (simp add: trace_before_def)
  have "\<forall>i<length xs. \<exists>l t'. body (trace_before body tr xs i) (xs ! i) = (Inr l, t')"
  proof (intro allI impI)
    fix i assume i: "i < length xs"
    with snoc.prems have "\<exists>l t'. body (trace_before body tr (xs @ [x]) i) ((xs @ [x]) ! i) = (Inr l, t')"
      by simp
    with i show "\<exists>l t'. body (trace_before body tr xs i) (xs ! i) = (Inr l, t')"
      by (simp add: tb nth_append)
  qed
  from snoc.IH [OF this] obtain lines where
    run: "for_of body tr [] xs = (Inr lines, trace_before body tr xs (length xs))" and
    len: "length lines = length xs" and
    each: "\<forall>i<length xs. body (trace_before body tr xs i) (xs ! i)
               = (Inr (lines ! i), trace_before body tr xs (Suc i))"
    by auto
  from snoc.prems have "\<exists>l t'. body (trace_before body tr (xs @ [x]) (length xs)) ((xs @ [x]) ! length xs) = (Inr l, t')"
    by (metis length_append_singleton lessI)
  then obtain l t' where
    last: "body (trace_before body tr xs (length xs)) x = (Inr l, t')"
    by (auto simp: tb)
  have whole: "for_of body tr [] (xs @ [x]) = (Inr (lines @ [l]), t')"
    by (simp add: for_of_append run last)
  then have tbl: "trace_before body tr (xs @ [x]) (Suc (length xs)) = t'"
    by (simp add: trace_before_def)
  have "\<forall>i<length (xs @ [x]). body (trace_before body tr (xs @ [x]) i) ((xs @ [x]) ! i)
               = (Inr ((lines @ [l]) ! i), trace_before body tr (xs @ [x]) (Suc i))"
  proof (intro allI impI)
    fix i assume "i < length (xs @ [x])"
    then consider "i < length xs" | "i = length xs" by force
    then show "body (trace_before body tr (xs @ [x]) i) ((xs @ [x]) ! i)
               = (Inr ((lines @ [l]) ! i), trace_before body tr (xs @ [x]) (Suc i))"
    proof cases
      case 1
      then show ?thesis using each len by (simp add: tb nth_append)
    next
      case 2
      then show ?thesis using last len tbl by (simp add: tb nth_append)
    qed
  qed
  with whole tbl len show ?case by simp
qed


section \<open>Steps of one item\<close>

lemma invoked_all: "first_error env tr steps = None \<Longrightarrow> invoked env tr steps = steps"
  by (induction steps arbitrary: tr) (auto split: option.splits)

lemma invoked_until_failure:
  "first_error env tr steps \<noteq> None \<Longrightarrow>
   \<exists>pre c post. steps = pre @ c # post \<and> first_error env tr pre = None \<and>
      call_fails env (tr @ pre) c \<and> invoked env tr steps = pre @ [c]"
proof (induction steps arbitrary: tr)
  case Nil
  then show ?case by simp
next
  case (Cons s steps)
  show ?case
  proof (cases "call_error env tr s")
    case (Some e)
    then have "s # steps = [] @ s # steps \<and> first_error env tr [] = None \<and>
      call_fails env (tr @ []) s \<and> invoked env tr (s # steps) = [] @ [s]"
      by (simp add: call_fails_def)
    then show ?thesis by blast
  next
    case None
    with Cons.prems have "first_error env (tr @ [s]) steps \<noteq> None" by simp
    from Cons.IH [OF this] obtain pre c post where
      "steps = pre @ c # post" "first_error env (tr @ [s]) pre = None"
      "call_fails env ((tr @ [s]) @ pre) c" "invoked env (tr @ [s]) steps = pre @ [c]"
      by blast
    with None have "s # steps = (s # pre) @ c # post \<and> first_error env tr (s # pre) = None \<and>
      call_fails env (tr @ (s # pre)) c \<and> invoked env tr (s # steps) = (s # pre) @ [c]"
      by simp
    then show ?thesis by blast
  qed
qed

lemma is_change_read:
  "is_change rt c \<Longrightarrow>
   has_properties c \<and>
   read_change rt c = Inr (js_prop c F_number, js_prop c F_project, patchset_of rt c)"
  unfolding is_change_def patchset_of_def read_change_def bind_err_def js_get_def has_properties_def
  by (auto split: if_splits sum.splits)

lemma review_try_steps:
  assumes "ToString (engine env) changeId = Inr n"
  shows "review_try env vV vR tr change changeId =
     (case first_error env tr [review_call vV vR n, SetTimeout 500, submit_call n] of
        Some e \<Rightarrow> (Inl e, tr @ invoked env tr [review_call vV vR n, SetTimeout 500, submit_call n])
      | None \<Rightarrow>
          (bind_err (js_get (engine env) change F_subject) (\<lambda>subject.
           bind_err (ToString (engine env) subject) (\<lambda>s.
             Inr (check_mark @ ascii '' Processed '' @ n @ ascii '': '' @ s))),
           tr @ [review_call vV vR n, SetTimeout 500, submit_call n]))"
  using assms
  by (simp add: review_try_def Let_def review_call_def submit_call_def split: sum.splits)

lemma review_item_steps:
  assumes "has_properties change" "ToString (engine env) (js_prop change F_number) = Inr n"
  shows "review_item env vV vR tr change =
     (case first_error env tr (review_steps vV vR (engine env) change) of
        Some e \<Rightarrow>
          (bind_err (ToString (engine env) (detail e)) (\<lambda>d.
             Inr (cross_mark @ ascii '' Failed '' @ n @ ascii '': '' @ d)),
           tr @ invoked env tr (review_steps vV vR (engine env) change))
      | None \<Rightarrow>
          (case bind_err (ToString (engine env) (js_prop change F_subject)) (\<lambda>s.
                  Inr (check_mark @ ascii '' Processed '' @ n @ ascii '': '' @ s)) of
             Inr line \<Rightarrow> Inr line
           | Inl e \<Rightarrow> bind_err (ToString (engine env) (detail e)) (\<lambda>d.
                        Inr (cross_mark @ ascii '' Failed '' @ n @ ascii '': '' @ d)),
           tr @ review_steps vV vR (engine env) change))"
proof -
  from assms(1) have get: "js_get (engine env) change f = Inr (js_prop change f)" for f
    by (simp add: js_get_def has_properties_def)
  have steps: "review_steps vV vR (engine env) change = [review_call vV vR n, SetTimeout 500, submit_call n]"
    using assms(2) by (simp add: review_steps_def text_of_def)
  show ?thesis
    unfolding review_item_def get steps sum.case review_try_steps [OF assms(2)] review_catch_def
    using assms(2)
    by (simp add: bind_err_def split: option.splits sum.splits)
qed

text \<open>
  The body of each loop, on an item that can be reported: the line it pushes and the
  calls it makes are those of running the steps of the action in order up to the first
  failure, provided the detail of that failure converts to text.
\<close>

lemma review_item_spec:
  assumes "review_ok (engine env) c"
    and "\<forall>e. first_error env tr (review_steps vV vR (engine env) c) = Some e \<longrightarrow> prints (engine env) (detail e)"
  shows "review_item env vV vR tr c =
     (Inr (review_line (engine env) c (first_error env tr (review_steps vV vR (engine env) c))),
      tr @ invoked env tr (review_steps vV vR (engine env) c))"
proof -
  let ?rt = "engine env"
  from assms(1) have p: "has_properties c"
    "ToString ?rt (js_prop c F_number) = Inr (text_of ?rt (js_prop c F_number))"
    "ToString ?rt (js_prop c F_subject) = Inr (text_of ?rt (js_prop c F_subject))"
    by (simp_all add: review_ok_def prints_text)
  show ?thesis
  proof (cases "first_error env tr (review_steps vV vR (engine env) c)")
    case None
    then show ?thesis
      by (simp add: review_item_steps [OF p(1,2)] p(3) bind_err_def invoked_all)
  next
    case (Some e)
    with assms(2) have "ToString ?rt (detail e) = Inr (text_of ?rt (detail e))"
      by (simp add: prints_text)
    with Some show ?thesis
      by (simp add: review_item_steps [OF p(1,2)] bind_err_def)
  qed
qed

lemma sync_item_spec:
  assumes "sync_ok (engine env) c"
  shows "sync_item env tr c =
     (Inr (sync_line (engine env) c (first_error env tr (sync_steps (engine env) c))),
      tr @ invoked env tr (sync_steps (engine env) c))"
proof -
  let ?rt = "engine env"
  from assms have c: "is_change ?rt c" and p:
    "ToString ?rt (js_prop c F_number) = Inr (text_of ?rt (js_prop c F_number))"
    "ToString ?rt (js_prop c F_project) = Inr (text_of ?rt (js_prop c F_project))"
    "ToString ?rt (patchset_of ?rt c) = Inr (text_of ?rt (patchset_of ?rt c))"
    "ToString ?rt (js_prop c F_subject) = Inr (text_of ?rt (js_prop c F_subject))"
    by (simp_all add: sync_ok_def prints_text)
  from is_change_read [OF c] have r: "c \<noteq> JUndefined" "c \<noteq> JNull"
    "read_change ?rt c = Inr (js_prop c F_number, js_prop c F_project, patchset_of ?rt c)"
    by (simp_all add: has_properties_def)
  show ?thesis
    using p r
    unfolding sync_item_def sync_try_def sync_catch_def synced_line_def repo_cmd_def sync_steps_def
      sync_cmd_def js_get_def Let_def bind_err_def
    by (simp split: option.splits)
qed


text \<open>
  With a body that behaves as a run of steps on each item where the loop runs it, line
  \<open>i\<close> of the loop is the line of item \<open>i\<close>, and the calls of item \<open>i\<close> follow those of
  the items before it.
\<close>

lemma batch_lines:
  assumes spec: "\<forall>i<length items. body (trace_before body tr items i) (items ! i) =
            (Inr (line_for (items ! i) (first_error env (trace_before body tr items i) (steps (items ! i)))),
             trace_before body tr items i @ invoked env (trace_before body tr items i) (steps (items ! i)))"
  shows "\<exists>lines. for_of body tr [] items = (Inr lines, trace_before body tr items (length items)) \<and>
           length lines = length items \<and>
           (\<forall>i<length items.
              lines ! i = line_for (items ! i) (first_error env (trace_before body tr items i) (steps (items ! i))) \<and>
              trace_before body tr items (Suc i)
                = trace_before body tr items i @ invoked env (trace_before body tr items i) (steps (items ! i)))"
proof -
  from spec have "\<forall>i<length items. \<exists>l t'. body (trace_before body tr items i) (items ! i) = (Inr l, t')"
    by blast
  from for_of_pushes [OF this] obtain lines where
    run: "for_of body tr [] items = (Inr lines, trace_before body tr items (length items))" and
    len: "length lines = length items" and
    each: "\<forall>i<length items. body (trace_before body tr items i) (items ! i)
               = (Inr (lines ! i), trace_before body tr items (Suc i))"
    by blast
  have "\<forall>i<length items.
              lines ! i = line_for (items ! i) (first_error env (trace_before body tr items i) (steps (items ! i))) \<and>
              trace_before body tr items (Suc i)
                = trace_before body tr items i @ invoked env (trace_before body tr items i) (steps (items ! i))"
    using spec each by auto
  with run len show ?thesis by blast
qed

lemma review_marks:
  "marked_success (review_line rt c None)" "marked_failed (review_line rt c (Some e))"
  by (simp_all add: marked_success_def marked_failed_def check_mark_def cross_mark_def ascii_def)

lemma sync_marks:
  "marked_success (sync_line rt c None)" "marked_failed (sync_line rt c (Some e))"
  by (simp_all add: marked_success_def marked_failed_def check_mark_def cross_mark_def ascii_def)

section \<open>From the loop to the answer of the tool\<close>


lemma fst_report: "fst r = Inr lines \<Longrightarrow> fst (report r) = Inr (ok (join newline lines))"
  by (cases r) (simp add: report_def)


lemma no_changes_nonempty: "items \<noteq> [] \<Longrightarrow> \<not> no_changes (JArr items)"
  by (simp add: no_changes_def js_length_zero)

lemma CallTool_Inr:
  "fst (tool_switch env tr name args) = Inr r \<Longrightarrow> fst (CallTool env tr name args) = Inr r"
  by (cases "tool_switch env tr name args") (simp add: CallTool_def)


section \<open>Facts about the concrete environments\<close>

lemmas demo_simps =
  demo_env_def demo_engine_def rejecting_def answering_def failing_def demo_change_def open_change_def
  a_fix_def no_text_def gerritApi_def review_steps_def sync_steps_def sync_cmd_def review_call_def
  submit_call_def topic_call_def sync_call_def show_int_def digits.simps call_fails_def new_Error_def
  TypeError_def magic_prefix_def demo_parse_def text_of_def detail_def dquote_def ascii_simps

lemmas schema_simps =
  demo_ListChangesSchema_def demo_GetChangeSchema_def demo_SetReviewSchema_def demo_SyncGerritSchema_def
  demo_SubmitChangesSchema_def demo_BatchReviewSubmitSchema_def z_optional_def z_default_def bind_err_def
  refused_def ascii_simps

lemma open_change_ok: "review_ok demo_engine (open_change n a_fix)"
  by (simp add: review_ok_def has_properties_def prints_def open_change_def a_fix_def ascii_simps)

lemma demo_change_read:
  "read_change demo_engine (demo_change n s) = Inr (JNum n, JStr (ascii ''app''), JNum 3)"
  by (simp add: read_change_def bind_err_def js_get_def js_member_def demo_change_def ascii_simps)

lemma demo_change_ok: "sync_ok demo_engine (demo_change n a_fix)"
  by (simp add: sync_ok_def is_change_def patchset_of_def demo_change_read prints_def)
     (simp add: demo_change_def a_fix_def ascii_simps)

lemma demo_patchset: "patchset_of demo_engine (demo_change n s) = JNum 3"
  by (simp add: patchset_of_def demo_change_read)

lemma two_lines: "length xs = 2 \<Longrightarrow> xs = [xs ! 0, xs ! 1]"
  by (cases xs; cases "tl xs") auto

section \<open>The response unwrapper: prefix stripped or identity\<close>

text \<open>
  Claim C2. A body that is a string beginning with the four characters \<^verbatim>\<open>)]}'\<close> is
  unwrapped to exactly what \<^verbatim>\<open>JSON.parse\<close> makes of the body without its first four
  characters (its value, or the failure it throws); every other input, a string without
  the prefix or a value that is no string, is returned as it is.
\<close>

theorem unwrap_prefixed_or_identity:
  "(take 4 s = magic_prefix \<longrightarrow> parseGerritResponse jp (JStr s) = jp (drop 4 s)) \<and>
   ((\<forall>s'. v = JStr s' \<longrightarrow> take 4 s' \<noteq> magic_prefix) \<longrightarrow> parseGerritResponse jp v = Inr v)"
  by (cases v) auto

theorem unwrap_prefixed_or_identity_witness:
  "take 4 (magic_prefix @ ascii ''[]'') = magic_prefix \<and>
   parseGerritResponse demo_parse (JStr (magic_prefix @ ascii ''[]'')) = Inr (JArr []) \<and>
   take 4 (ascii ''[]'') \<noteq> magic_prefix \<and>
   parseGerritResponse demo_parse (JStr (ascii ''[]'')) = Inr (JStr (ascii ''[]'')) \<and>
   parseGerritResponse demo_parse (JNum 7) = Inr (JNum 7)"
  using unwrap_prefixed_or_identity [of "magic_prefix @ ascii ''[]''" demo_parse "JStr (ascii ''[]'')"]
        unwrap_prefixed_or_identity [of "[]" demo_parse "JNum 7"]
  by (simp add: magic_prefix_def demo_parse_def ascii_simps)

section \<open>Requests that fail before any call\<close>

text \<open>
  Claim C10. A request whose tool name is none of the six names of the switch makes no
  call (the trace is unchanged) and is answered with the text
  \<^verbatim>\<open>Error: Unknown tool: <name>\<close> and the error flag.
\<close>

theorem unknown_tool_is_error:
  "name \<notin> set tool_names \<Longrightarrow>
   CallTool env tr name args =
     (Inr \<lparr>content_text = ascii ''Error: Unknown tool: '' @ name, isError = True\<rparr>, tr)"
  by (simp add: tool_names_def CallTool_def tool_switch_def new_Error_def errorMessage_def
        opt_chain_def bind_err_def ascii_simps)

theorem unknown_tool_is_error_witness:
  "ascii ''delete_change'' \<notin> set tool_names \<and>
   CallTool (demo_env (rejecting (SetTimeout 0) JNull) (failing [])) [] (ascii ''delete_change'') (JObj []) =
     (Inr \<lparr>content_text = ascii ''Error: Unknown tool: delete_change'', isError = True\<rparr>, [])"
  using unknown_tool_is_error
    [of "ascii ''delete_change''" "demo_env (rejecting (SetTimeout 0) JNull) (failing [])" "[]" "JObj []"]
  by (simp add: tool_names_def ascii_simps)

text \<open>
  Claim C5. When the validated arguments of \<^verbatim>\<open>sync_gerrit_to_local\<close> carry neither a
  topic nor a change identifier, the request is answered with the error
  \<^verbatim>\<open>Either topic or changeId must be provided\<close> and the error flag, and no call has been
  made: the trace is the one the request started with, so the query of changes was never
  sent.
\<close>

theorem sync_without_selector_fails_first:
  "SyncGerritSchema env args = Inr (None, None) \<Longrightarrow>
   CallTool env tr (ascii ''sync_gerrit_to_local'') args =
     (Inr \<lparr>content_text = ascii ''Error: Either topic or changeId must be provided'', isError = True\<rparr>, tr)"
  by (simp add: CallTool_def tool_switch_def sync_gerrit_to_local_def sync_query_def
        new_Error_def errorMessage_def opt_chain_def bind_err_def ascii_simps)

theorem sync_without_selector_fails_first_witness:
  "SyncGerritSchema (demo_env (rejecting (SetTimeout 0) JNull) (failing [])) (JObj []) = Inr (None, None) \<and>
   CallTool (demo_env (rejecting (SetTimeout 0) JNull) (failing [])) [] (ascii ''sync_gerrit_to_local'') (JObj []) =
     (Inr \<lparr>content_text = ascii ''Error: Either topic or changeId must be provided'', isError = True\<rparr>, [])"
proof -
  have h: "SyncGerritSchema (demo_env (rejecting (SetTimeout 0) JNull) (failing [])) (JObj []) = Inr (None, None)"
    by (simp add: demo_env_def schema_simps)
  show ?thesis using h sync_without_selector_fails_first [OF h, of "[]"] by simp
qed

section \<open>A query that finds nothing\<close>

text \<open>
  Claim C4. When the query of a batch tool resolves to the empty list, the tool answers
  with one informational line (\<^verbatim>\<open>No open changes found for topic: <topic>\<close> for
  \<^verbatim>\<open>batch_review_submit_by_topic\<close>, \<^verbatim>\<open>No changes found.\<close> for \<^verbatim>\<open>sync_gerrit_to_local\<close>)
  without the error flag, and the only call it has made is the query itself: no review is
  posted, nothing is submitted and no child process is started.
\<close>

theorem empty_query_one_line_no_mutation:
  "(BatchReviewSubmitSchema env args = Inr (topic, vV, vR) \<and>
    gerritApi env tr (topic_call topic) = Inr (JArr []) \<longrightarrow>
      CallTool env tr (ascii ''batch_review_submit_by_topic'') args =
        (Inr \<lparr>content_text = ascii ''No open changes found for topic: '' @ topic, isError = False\<rparr>,
         tr @ [topic_call topic]) \<and>
      filter mutating
        (drop (length tr) (snd (CallTool env tr (ascii ''batch_review_submit_by_topic'') args))) = []) \<and>
   (SyncGerritSchema env args = Inr (t, c) \<and> sync_query t c = Inr query \<and>
    gerritApi env tr (sync_call query) = Inr (JArr []) \<longrightarrow>
      CallTool env tr (ascii ''sync_gerrit_to_local'') args =
        (Inr \<lparr>content_text = ascii ''No changes found.'', isError = False\<rparr>, tr @ [sync_call query]) \<and>
      filter mutating (drop (length tr) (snd (CallTool env tr (ascii ''sync_gerrit_to_local'') args))) = [])"
  by (simp add: CallTool_def tool_switch_def batch_review_submit_by_topic_def sync_gerrit_to_local_def
        no_changes_def js_length_zero ok_def topic_call_def sync_call_def ascii_simps)

theorem empty_query_one_line_no_mutation_witness:
  "BatchReviewSubmitSchema (demo_env (rejecting (SetTimeout 0) JNull) (failing []))
      (JObj [(ascii ''topic'', JStr (ascii ''t''))]) = Inr (ascii ''t'', 1, 2) \<and>
   gerritApi (demo_env (rejecting (SetTimeout 0) JNull) (failing [])) [] (topic_call (ascii ''t''))
     = Inr (JArr []) \<and>
   CallTool (demo_env (rejecting (SetTimeout 0) JNull) (failing [])) [] (ascii ''batch_review_submit_by_topic'')
      (JObj [(ascii ''topic'', JStr (ascii ''t''))]) =
     (Inr \<lparr>content_text = ascii ''No open changes found for topic: t'', isError = False\<rparr>,
      [topic_call (ascii ''t'')]) \<and>
   SyncGerritSchema (demo_env (rejecting (SetTimeout 0) JNull) (failing []))
      (JObj [(ascii ''topic'', JStr (ascii ''t''))]) = Inr (Some (ascii ''t''), None) \<and>
   sync_query (Some (ascii ''t'')) None = Inr (ascii ''topic:'' @ dquote @ ascii ''t'' @ dquote) \<and>
   gerritApi (demo_env (rejecting (SetTimeout 0) JNull) (failing [])) []
      (sync_call (ascii ''topic:'' @ dquote @ ascii ''t'' @ dquote)) = Inr (JArr []) \<and>
   CallTool (demo_env (rejecting (SetTimeout 0) JNull) (failing [])) [] (ascii ''sync_gerrit_to_local'')
      (JObj [(ascii ''topic'', JStr (ascii ''t''))]) =
     (Inr \<lparr>content_text = ascii ''No changes found.'', isError = False\<rparr>,
      [sync_call (ascii ''topic:'' @ dquote @ ascii ''t'' @ dquote)])"
proof -
  let ?E = "demo_env (rejecting (SetTimeout 0) JNull) (failing [])"
  let ?a = "JObj [(ascii ''topic'', JStr (ascii ''t''))]"
  let ?q = "ascii ''topic:'' @ dquote @ ascii ''t'' @ dquote"
  have h1: "BatchReviewSubmitSchema ?E ?a = Inr (ascii ''t'', 1, 2)"
    by (simp add: demo_env_def schema_simps)
  have h2: "gerritApi ?E [] (topic_call (ascii ''t'')) = Inr (JArr [])"
    by (simp add: gerritApi_def demo_env_def rejecting_def topic_call_def)
  have h3: "SyncGerritSchema ?E ?a = Inr (Some (ascii ''t''), None)"
    by (simp add: demo_env_def schema_simps)
  have h4: "sync_query (Some (ascii ''t'')) None = Inr ?q"
    by (simp add: sync_query_def ascii_eq_Nil)
  have h5: "gerritApi ?E [] (sync_call ?q) = Inr (JArr [])"
    by (simp add: gerritApi_def demo_env_def rejecting_def sync_call_def)
  have t: "ascii ''No open changes found for topic: '' @ ascii ''t'' = ascii ''No open changes found for topic: t''"
    by (simp add: ascii_simps)
  show ?thesis
    using h1 h2 h3 h4 h5 t
      empty_query_one_line_no_mutation [of ?E ?a "ascii ''t''" 1 2 "[]" "Some (ascii ''t'')" None ?q]
    by simp
qed

section \<open>Which selector the sync tool uses\<close>




section \<open>The steps of vote-then-submit\<close>

text \<open>
  Claim C7. For every item of the list, the calls that \<^verbatim>\<open>batch_review_submit_by_topic\<close>
  makes are the beginning of one fixed sequence and nothing else: the POST of a review to
  \<^verbatim>\<open>/changes/<number>/revisions/current/review\<close> with the labels \<^verbatim>\<open>Verified\<close> and
  \<^verbatim>\<open>Code-Review\<close> and the fixed message, the pause of 500 ms, and the POST to
  \<^verbatim>\<open>/changes/<number>/submit\<close> with \<^verbatim>\<open>wait_for_merge: true\<close>. The sequence is run
  to its end unless the item fails before: no call is made when the number of the item
  cannot be read or put into the URL, and a review that is rejected is the only call. No
  call is made twice.
\<close>

theorem vote_delay_submit_steps:
  "snd (review_item env voteVerified voteReview tr change) =
     tr @ (case bind_err (js_get (engine env) change F_number) (ToString (engine env)) of
             Inl e \<Rightarrow> []
           | Inr n \<Rightarrow>
               (let vote = Post (ascii ''/changes/'' @ n @ ascii ''/revisions/current/review'')
                             (JObj [(ascii ''labels'', JObj [(ascii ''Verified'', JNum voteVerified),
                                                             (ascii ''Code-Review'', JNum voteReview)]),
                                    (ascii ''message'', JStr (ascii ''Batch review and submit by MCP Server''))])
                             False;
                    submit = Post (ascii ''/changes/'' @ n @ ascii ''/submit'')
                               (JObj [(ascii ''wait_for_merge'', JBool True)]) False
                in if call_fails env tr vote then [vote] else [vote, SetTimeout 500, submit]))"
  unfolding review_item_def review_try_def review_call_def submit_call_def Let_def call_fails_def bind_err_def
  by (simp split: sum.splits)

theorem vote_delay_submit_steps_witness:
  "snd (review_item (demo_env (rejecting (submit_call (ascii ''2'')) (JStr (ascii ''merge conflict''))) (failing []))
          1 2 [] (open_change 2 a_fix)) =
     [Post (ascii ''/changes/2/revisions/current/review'')
        (JObj [(ascii ''labels'', JObj [(ascii ''Verified'', JNum 1), (ascii ''Code-Review'', JNum 2)]),
               (ascii ''message'', JStr (ascii ''Batch review and submit by MCP Server''))]) False,
      SetTimeout 500,
      Post (ascii ''/changes/2/submit'') (JObj [(ascii ''wait_for_merge'', JBool True)]) False] \<and>
   snd (review_item (demo_env (rejecting (review_call 1 2 (ascii ''2'')) (JStr (ascii ''not permitted''))) (failing []))
          1 2 [] (open_change 2 a_fix)) =
     [Post (ascii ''/changes/2/revisions/current/review'')
        (JObj [(ascii ''labels'', JObj [(ascii ''Verified'', JNum 1), (ascii ''Code-Review'', JNum 2)]),
               (ascii ''message'', JStr (ascii ''Batch review and submit by MCP Server''))]) False] \<and>
   snd (review_item (demo_env (rejecting (SetTimeout 0) JNull) (failing []))
          1 2 [] (JObj [(ascii ''_number'', no_text)])) = []"
  using
    vote_delay_submit_steps [of "demo_env (rejecting (submit_call (ascii ''2'')) (JStr (ascii ''merge conflict''))) (failing [])"
                                1 2 "[]" "open_change 2 a_fix"]
    vote_delay_submit_steps [of "demo_env (rejecting (review_call 1 2 (ascii ''2'')) (JStr (ascii ''not permitted''))) (failing [])"
                                1 2 "[]" "open_change 2 a_fix"]
    vote_delay_submit_steps [of "demo_env (rejecting (SetTimeout 0) JNull) (failing [])"
                                1 2 "[]" "JObj [(ascii ''_number'', no_text)]"]
  by (simp add: demo_simps js_get_def bind_err_def Let_def)

section \<open>One failed item does not stop the batch\<close>

text \<open>
  Claim C1 says that one item failing at a step leaves the batch with its \<open>N\<close> lines, the
  failing one marked failed and the others marked success. The lines are built by
  template literals, and a value that does not convert to text makes a template throw.
  First world: two changes, the submit of the second rejected with the body
  \<^verbatim>\<open>{"toString": 1}\<close>. The steps of the first succeed and a step of the second fails, as
  the claim supposes, but the \<^verbatim>\<open>catch\<close> of the second throws while it prints the body
  and the loop ends with no line at all. Second world: the first change has such an
  object as subject and the submit of the second is rejected with \<^verbatim>\<open>merge conflict\<close>.
  Every step of the first succeeds, and its line is marked failed.
\<close>

theorem unprintable_values_break_the_batch:
  "first_error (demo_env (rejecting (submit_call (ascii ''2'')) no_text) (failing []))
     (trace_before (review_item (demo_env (rejecting (submit_call (ascii ''2'')) no_text) (failing [])) 1 2) []
        [open_change 1 a_fix, open_change 2 a_fix] 0)
     (review_steps 1 2 demo_engine (open_change 1 a_fix)) = None \<and>
   first_error (demo_env (rejecting (submit_call (ascii ''2'')) no_text) (failing []))
     (trace_before (review_item (demo_env (rejecting (submit_call (ascii ''2'')) no_text) (failing [])) 1 2) []
        [open_change 1 a_fix, open_change 2 a_fix] 1)
     (review_steps 1 2 demo_engine (open_change 2 a_fix)) =
     Some \<lparr>message = ascii ''Request failed with status code 409'', response_data = Some no_text\<rparr> \<and>
   fst (for_of (review_item (demo_env (rejecting (submit_call (ascii ''2'')) no_text) (failing [])) 1 2) [] []
          [open_change 1 a_fix, open_change 2 a_fix]) =
     Inl (new_Error (ascii ''Cannot convert object to primitive value'')) \<and>
   first_error (demo_env (rejecting (submit_call (ascii ''2'')) (JStr (ascii ''merge conflict''))) (failing []))
     (trace_before
        (review_item (demo_env (rejecting (submit_call (ascii ''2'')) (JStr (ascii ''merge conflict''))) (failing [])) 1 2)
        [] [open_change 1 no_text, open_change 2 a_fix] 0)
     (review_steps 1 2 demo_engine (open_change 1 no_text)) = None \<and>
   fst (for_of
          (review_item (demo_env (rejecting (submit_call (ascii ''2'')) (JStr (ascii ''merge conflict''))) (failing [])) 1 2)
          [] [] [open_change 1 no_text, open_change 2 a_fix]) =
     Inr [cross_mark @ ascii '' Failed 1: Cannot convert object to primitive value'',
          cross_mark @ ascii '' Failed 2: merge conflict''] \<and>
   \<not> marked_success (cross_mark @ ascii '' Failed 1: Cannot convert object to primitive value'')"
proof -
  let ?E = "demo_env (rejecting (submit_call (ascii ''2'')) no_text) (failing [])"
  let ?F = "demo_env (rejecting (submit_call (ascii ''2'')) (JStr (ascii ''merge conflict''))) (failing [])"
  have one: "review_item ?E 1 2 [] (open_change 1 a_fix) =
               (Inr (check_mark @ ascii '' Processed 1: fix''), review_steps 1 2 demo_engine (open_change 1 a_fix))"
    by (simp add: review_item_def review_try_def review_catch_def js_get_def bind_err_def Let_def demo_simps)
  have two: "review_item ?E 1 2 (review_steps 1 2 demo_engine (open_change 1 a_fix)) (open_change 2 a_fix) =
               (Inl (new_Error (ascii ''Cannot convert object to primitive value'')),
                review_steps 1 2 demo_engine (open_change 1 a_fix) @ review_steps 1 2 demo_engine (open_change 2 a_fix))"
    by (simp add: review_item_def review_try_def review_catch_def js_get_def bind_err_def Let_def demo_simps)
  have three: "review_item ?F 1 2 [] (open_change 1 no_text) =
               (Inr (cross_mark @ ascii '' Failed 1: Cannot convert object to primitive value''),
                review_steps 1 2 demo_engine (open_change 1 no_text))"
    by (simp add: review_item_def review_try_def review_catch_def js_get_def bind_err_def Let_def demo_simps)
  have four: "review_item ?F 1 2 (review_steps 1 2 demo_engine (open_change 1 no_text)) (open_change 2 a_fix) =
               (Inr (cross_mark @ ascii '' Failed 2: merge conflict''),
                review_steps 1 2 demo_engine (open_change 1 no_text) @ review_steps 1 2 demo_engine (open_change 2 a_fix))"
    by (simp add: review_item_def review_try_def review_catch_def js_get_def bind_err_def Let_def demo_simps)
  have a: "first_error ?E [] (review_steps 1 2 demo_engine (open_change 1 a_fix)) = None"
    by (simp add: demo_simps)
  have b: "first_error ?E (review_steps 1 2 demo_engine (open_change 1 a_fix))
             (review_steps 1 2 demo_engine (open_change 2 a_fix)) =
           Some \<lparr>message = ascii ''Request failed with status code 409'', response_data = Some no_text\<rparr>"
    by (simp add: demo_simps)
  have c: "first_error ?F [] (review_steps 1 2 demo_engine (open_change 1 no_text)) = None"
    by (simp add: demo_simps)
  have d: "\<not> marked_success (cross_mark @ ascii '' Failed 1: Cannot convert object to primitive value'')"
    by (simp add: marked_success_def check_mark_def cross_mark_def)
  show ?thesis
    using a b c d by (simp add: trace_before_def one two three four)
qed

text \<open>
  Claim C1, amended. Take either batch loop over a list of \<open>N\<close> items whose values convert
  to text: for \<^verbatim>\<open>batch_review_submit_by_topic\<close>, values with properties whose number and
  subject convert to text; for \<^verbatim>\<open>sync_gerrit_to_local\<close>, changes with a revision under
  the key of their current revision whose number, project, patchset and subject convert to
  text. Suppose that a step of item \<open>k\<close> fails, with a detail that converts to text (in
  \<^verbatim>\<open>sync_gerrit_to_local\<close> the detail is a message, which is text), while every step of
  every other item succeeds. Then the loop ends normally with exactly \<open>N\<close> lines; line
  \<open>k\<close> is marked failed and every other line is marked success; the calls made for item
  \<open>k\<close> are its steps up to and including the one that failed, so the steps after it are
  never invoked; and each other item, also those after \<open>k\<close>, has all its steps invoked.
\<close>

theorem one_failed_item_does_not_stop_the_batch:
  assumes tool:
      "(body, steps, item_ok, error_ok) =
         (review_item env vV vR, review_steps vV vR (engine env), review_ok (engine env),
          (\<lambda>e. prints (engine env) (detail e))) \<or>
       (body, steps, item_ok, error_ok) =
         (sync_item env, sync_steps (engine env), sync_ok (engine env), (\<lambda>e. True))"
    and changes: "\<forall>c\<in>set items. item_ok c"
    and k: "k < length items"
    and fails: "first_error env (trace_before body tr items k) (steps (items ! k)) = Some e"
    and printable: "error_ok e"
    and others: "\<forall>i<length items. i \<noteq> k \<longrightarrow>
                   first_error env (trace_before body tr items i) (steps (items ! i)) = None"
  shows "\<exists>lines. fst (for_of body tr [] items) = Inr lines \<and> length lines = length items \<and>
           marked_failed (lines ! k) \<and>
           (\<forall>i<length items. i \<noteq> k \<longrightarrow> marked_success (lines ! i)) \<and>
           (\<exists>pre c post. steps (items ! k) = pre @ c # post \<and>
              call_fails env (trace_before body tr items k @ pre) c \<and>
              trace_before body tr items (Suc k) = trace_before body tr items k @ pre @ [c]) \<and>
           (\<forall>i<length items. i \<noteq> k \<longrightarrow>
              trace_before body tr items (Suc i) = trace_before body tr items i @ steps (items ! i))"
proof -
  have outcome: "first_error env (trace_before body tr items i) (steps (items ! i)) = Some e' \<Longrightarrow> error_ok e'"
    if "i < length items" for i e'
    using that fails printable others by (cases "i = k") auto
  obtain line_for where
    spec: "\<forall>i<length items. body (trace_before body tr items i) (items ! i) =
            (Inr (line_for (items ! i) (first_error env (trace_before body tr items i) (steps (items ! i)))),
             trace_before body tr items i @ invoked env (trace_before body tr items i) (steps (items ! i)))" and
    ok: "\<And>c. marked_success (line_for c None)" and
    bad: "\<And>c e. marked_failed (line_for c (Some e))"
  proof -
    from tool consider
        (review) "body = review_item env vV vR" "steps = review_steps vV vR (engine env)"
                 "item_ok = review_ok (engine env)" "error_ok = (\<lambda>e. prints (engine env) (detail e))"
      | (sync) "body = sync_item env" "steps = sync_steps (engine env)" "item_ok = sync_ok (engine env)"
      by auto
    then show ?thesis
    proof cases
      case review
      have "\<forall>i<length items. body (trace_before body tr items i) (items ! i) =
            (Inr (review_line (engine env) (items ! i)
                    (first_error env (trace_before body tr items i) (steps (items ! i)))),
             trace_before body tr items i @ invoked env (trace_before body tr items i) (steps (items ! i)))"
      proof (intro allI impI)
        fix i assume i: "i < length items"
        then have "review_ok (engine env) (items ! i)" using changes review by simp
        moreover have "\<forall>e'. first_error env (trace_before body tr items i)
                               (review_steps vV vR (engine env) (items ! i)) = Some e'
                          \<longrightarrow> prints (engine env) (detail e')"
          using outcome [OF i] review by simp
        ultimately show "body (trace_before body tr items i) (items ! i) =
            (Inr (review_line (engine env) (items ! i)
                    (first_error env (trace_before body tr items i) (steps (items ! i)))),
             trace_before body tr items i @ invoked env (trace_before body tr items i) (steps (items ! i)))"
          unfolding review by (rule review_item_spec)
      qed
      then show ?thesis using that [of "review_line (engine env)"] review_marks by blast
    next
      case sync
      have "\<forall>i<length items. body (trace_before body tr items i) (items ! i) =
            (Inr (sync_line (engine env) (items ! i)
                    (first_error env (trace_before body tr items i) (steps (items ! i)))),
             trace_before body tr items i @ invoked env (trace_before body tr items i) (steps (items ! i)))"
        using changes sync by (simp add: sync_item_spec)
      then show ?thesis using that [of "sync_line (engine env)"] sync_marks by blast
    qed
  qed
  from batch_lines [OF spec] obtain lines where
    run: "for_of body tr [] items = (Inr lines, trace_before body tr items (length items))" and
    len: "length lines = length items" and
    each: "\<forall>i<length items.
              lines ! i = line_for (items ! i) (first_error env (trace_before body tr items i) (steps (items ! i))) \<and>
              trace_before body tr items (Suc i)
                = trace_before body tr items i @ invoked env (trace_before body tr items i) (steps (items ! i))"
    by blast
  have 1: "marked_failed (lines ! k)"
    using each k fails bad by simp
  have 2: "\<forall>i<length items. i \<noteq> k \<longrightarrow> marked_success (lines ! i)"
    using each others ok by simp
  from fails have "first_error env (trace_before body tr items k) (steps (items ! k)) \<noteq> None" by simp
  from invoked_until_failure [OF this] obtain pre c post where
    split: "steps (items ! k) = pre @ c # post"
      "call_fails env (trace_before body tr items k @ pre) c"
      "invoked env (trace_before body tr items k) (steps (items ! k)) = pre @ [c]"
    by blast
  have 3: "\<exists>pre c post. steps (items ! k) = pre @ c # post \<and>
              call_fails env (trace_before body tr items k @ pre) c \<and>
              trace_before body tr items (Suc k) = trace_before body tr items k @ pre @ [c]"
    using split each k by auto
  have 4: "\<forall>i<length items. i \<noteq> k \<longrightarrow>
              trace_before body tr items (Suc i) = trace_before body tr items i @ steps (items ! i)"
    using each others by (simp add: invoked_all)
  from run len 1 2 3 4 show ?thesis by simp
qed

theorem one_failed_item_does_not_stop_the_batch_witness:
  "(\<exists>lines. fst (for_of (review_item (demo_env (rejecting (submit_call (ascii ''2'')) (JStr (ascii ''merge conflict'')))
                                       (failing [])) 1 2)
                  [] [] [open_change 1 a_fix, open_change 2 a_fix, open_change 3 a_fix]) = Inr lines \<and>
      length lines = 3 \<and> marked_success (lines ! 0) \<and> marked_failed (lines ! 1) \<and> marked_success (lines ! 2)) \<and>
   trace_before (review_item (demo_env (rejecting (submit_call (ascii ''2'')) (JStr (ascii ''merge conflict'')))
                                (failing [])) 1 2)
     [] [open_change 1 a_fix, open_change 2 a_fix, open_change 3 a_fix] 3 =
     review_steps 1 2 demo_engine (open_change 1 a_fix) @ review_steps 1 2 demo_engine (open_change 2 a_fix) @
     review_steps 1 2 demo_engine (open_change 3 a_fix) \<and>
   (\<exists>lines. fst (for_of (sync_item (demo_env (rejecting (SetTimeout 0) JNull) (failing (ascii ''repo download app 2/3''))))
                  [] [] [demo_change 1 a_fix, demo_change 2 a_fix, demo_change 3 a_fix]) = Inr lines \<and>
      length lines = 3 \<and> marked_success (lines ! 0) \<and> marked_failed (lines ! 1) \<and> marked_success (lines ! 2)) \<and>
   trace_before (sync_item (demo_env (rejecting (SetTimeout 0) JNull) (failing (ascii ''repo download app 2/3''))))
     [] [demo_change 1 a_fix, demo_change 2 a_fix, demo_change 3 a_fix] 3 =
     sync_steps demo_engine (demo_change 1 a_fix) @ sync_steps demo_engine (demo_change 2 a_fix) @
     sync_steps demo_engine (demo_change 3 a_fix)"
proof -
  have two: "i = 0 \<or> i = 2" if "i < length [a, b, c]" "i \<noteq> 1" for i and a b c :: jsval
    using that by force
  have engine: "engine (demo_env ad ex) = demo_engine" for ad ex
    by (simp add: demo_env_def)
  have review: "(\<exists>lines. fst (for_of (review_item (demo_env (rejecting (submit_call (ascii ''2'')) (JStr (ascii ''merge conflict'')))
                                       (failing [])) 1 2)
                  [] [] [open_change 1 a_fix, open_change 2 a_fix, open_change 3 a_fix]) = Inr lines \<and>
      length lines = 3 \<and> marked_success (lines ! 0) \<and> marked_failed (lines ! 1) \<and> marked_success (lines ! 2)) \<and>
     trace_before (review_item (demo_env (rejecting (submit_call (ascii ''2'')) (JStr (ascii ''merge conflict'')))
                                (failing [])) 1 2)
       [] [open_change 1 a_fix, open_change 2 a_fix, open_change 3 a_fix] 3 =
       review_steps 1 2 demo_engine (open_change 1 a_fix) @ review_steps 1 2 demo_engine (open_change 2 a_fix) @
       review_steps 1 2 demo_engine (open_change 3 a_fix)"
  proof -
    let ?items = "[open_change 1 a_fix, open_change 2 a_fix, open_change 3 a_fix]"
    let ?E = "demo_env (rejecting (submit_call (ascii ''2'')) (JStr (ascii ''merge conflict''))) (failing [])"
    let ?body = "review_item ?E 1 2"
    let ?e = "\<lparr>message = ascii ''Request failed with status code 409'',
               response_data = Some (JStr (ascii ''merge conflict''))\<rparr>"
    have tool: "(?body, review_steps 1 2 demo_engine, review_ok demo_engine, (\<lambda>e. prints demo_engine (detail e))) =
                  (review_item ?E 1 2, review_steps 1 2 (engine ?E), review_ok (engine ?E),
                   (\<lambda>e. prints (engine ?E) (detail e))) \<or>
                (?body, review_steps 1 2 demo_engine, review_ok demo_engine, (\<lambda>e. prints demo_engine (detail e))) =
                  (sync_item ?E, sync_steps (engine ?E), sync_ok (engine ?E), (\<lambda>e. True))"
      by (simp add: engine)
    have changes: "\<forall>c\<in>set ?items. review_ok demo_engine c" by (simp add: open_change_ok)
    have k: "1 < length ?items" by simp
    have b1: "?body [] (open_change 1 a_fix) =
               (Inr (check_mark @ ascii '' Processed 1: fix''), review_steps 1 2 demo_engine (open_change 1 a_fix))"
      by (simp add: review_item_def review_try_def review_catch_def js_get_def bind_err_def Let_def demo_simps)
    have b2: "?body (review_steps 1 2 demo_engine (open_change 1 a_fix)) (open_change 2 a_fix) =
               (Inr (cross_mark @ ascii '' Failed 2: merge conflict''),
                review_steps 1 2 demo_engine (open_change 1 a_fix) @ review_steps 1 2 demo_engine (open_change 2 a_fix))"
      by (simp add: review_item_def review_try_def review_catch_def js_get_def bind_err_def Let_def demo_simps)
    have t0: "trace_before ?body [] ?items 0 = []" by (simp add: trace_before_def)
    have t1: "trace_before ?body [] ?items 1 = review_steps 1 2 demo_engine (open_change 1 a_fix)"
      by (simp add: trace_before_def b1)
    have t2: "trace_before ?body [] ?items 2 =
                review_steps 1 2 demo_engine (open_change 1 a_fix) @ review_steps 1 2 demo_engine (open_change 2 a_fix)"
      by (simp add: trace_before_def b1 b2)
    have fails: "first_error ?E (trace_before ?body [] ?items 1) (review_steps 1 2 demo_engine (?items ! 1)) = Some ?e"
      unfolding t1 by (simp add: demo_simps)
    have printable: "prints demo_engine (detail ?e)"
      by (simp add: prints_def detail_def ascii_simps)
    have others: "\<forall>i<length ?items. i \<noteq> 1 \<longrightarrow>
                     first_error ?E (trace_before ?body [] ?items i) (review_steps 1 2 demo_engine (?items ! i)) = None"
    proof (intro allI impI)
      fix i assume "i < length ?items" "i \<noteq> 1"
      then consider "i = 0" | "i = 2" using two by blast
      then show "first_error ?E (trace_before ?body [] ?items i) (review_steps 1 2 demo_engine (?items ! i)) = None"
      proof cases
        case 1 then show ?thesis unfolding 1 t0 by (simp add: demo_simps)
      next
        case 2 then show ?thesis unfolding 2 t2 by (simp add: demo_simps)
      qed
    qed
    from one_failed_item_does_not_stop_the_batch [OF tool changes k fails printable others]
    obtain lines where
      run: "fst (for_of ?body [] [] ?items) = Inr lines" and len: "length lines = length ?items" and
      bad: "marked_failed (lines ! 1)" and
      good: "\<forall>i<length ?items. i \<noteq> 1 \<longrightarrow> marked_success (lines ! i)" and
      full: "\<forall>i<length ?items. i \<noteq> 1 \<longrightarrow>
               trace_before ?body [] ?items (Suc i) = trace_before ?body [] ?items i @ review_steps 1 2 demo_engine (?items ! i)"
      by blast
    have g: "marked_success (lines ! 0)" "marked_success (lines ! 2)"
      by (rule good [rule_format]; simp)+
    have "trace_before ?body [] ?items (Suc 2) =
            trace_before ?body [] ?items 2 @ review_steps 1 2 demo_engine (?items ! 2)"
      by (rule full [rule_format]) simp_all
    then have t3: "trace_before ?body [] ?items 3 =
                     review_steps 1 2 demo_engine (open_change 1 a_fix) @ review_steps 1 2 demo_engine (open_change 2 a_fix) @
                     review_steps 1 2 demo_engine (open_change 3 a_fix)"
      unfolding t2 by (simp add: numeral_3_eq_3)
    from run len bad g have "\<exists>lines. fst (for_of ?body [] [] ?items) = Inr lines \<and>
      length lines = 3 \<and> marked_success (lines ! 0) \<and> marked_failed (lines ! 1) \<and> marked_success (lines ! 2)"
      by simp
    with t3 show ?thesis by blast
  qed
  have sync: "(\<exists>lines. fst (for_of (sync_item (demo_env (rejecting (SetTimeout 0) JNull) (failing (ascii ''repo download app 2/3''))))
                  [] [] [demo_change 1 a_fix, demo_change 2 a_fix, demo_change 3 a_fix]) = Inr lines \<and>
      length lines = 3 \<and> marked_success (lines ! 0) \<and> marked_failed (lines ! 1) \<and> marked_success (lines ! 2)) \<and>
     trace_before (sync_item (demo_env (rejecting (SetTimeout 0) JNull) (failing (ascii ''repo download app 2/3''))))
       [] [demo_change 1 a_fix, demo_change 2 a_fix, demo_change 3 a_fix] 3 =
       sync_steps demo_engine (demo_change 1 a_fix) @ sync_steps demo_engine (demo_change 2 a_fix) @
       sync_steps demo_engine (demo_change 3 a_fix)"
  proof -
    let ?items = "[demo_change 1 a_fix, demo_change 2 a_fix, demo_change 3 a_fix]"
    let ?E = "demo_env (rejecting (SetTimeout 0) JNull) (failing (ascii ''repo download app 2/3''))"
    let ?body = "sync_item ?E"
    let ?e = "new_Error (ascii ''Command failed: repo download app 2/3'')"
    have tool: "(?body, sync_steps demo_engine, sync_ok demo_engine, (\<lambda>e. True)) =
                  (review_item ?E 1 2, review_steps 1 2 (engine ?E), review_ok (engine ?E),
                   (\<lambda>e. prints (engine ?E) (detail e))) \<or>
                (?body, sync_steps demo_engine, sync_ok demo_engine, (\<lambda>e. True)) =
                  (sync_item ?E, sync_steps (engine ?E), sync_ok (engine ?E), (\<lambda>e. True))"
      by (simp add: engine)
    have changes: "\<forall>c\<in>set ?items. sync_ok demo_engine c" by (simp add: demo_change_ok)
    have k: "1 < length ?items" by simp
    have spec: "?body t (demo_change n a_fix) =
       (Inr (sync_line demo_engine (demo_change n a_fix) (first_error ?E t (sync_steps demo_engine (demo_change n a_fix)))),
        t @ invoked ?E t (sync_steps demo_engine (demo_change n a_fix)))" for t n
      using sync_item_spec [of ?E "demo_change n a_fix" t] by (simp add: engine demo_change_ok)
    have c1: "sync_cmd demo_engine (demo_change 1 a_fix) = ascii ''repo download app 1/3''"
      and c2: "sync_cmd demo_engine (demo_change 2 a_fix) = ascii ''repo download app 2/3''"
      and c3: "sync_cmd demo_engine (demo_change 3 a_fix) = ascii ''repo download app 3/3''"
      by (simp_all add: sync_cmd_def demo_patchset text_of_def)
         (simp_all add: demo_change_def show_int_def digits.simps ascii_simps)
    have t0: "trace_before ?body [] ?items 0 = []" by (simp add: trace_before_def)
    have t1: "trace_before ?body [] ?items 1 = sync_steps demo_engine (demo_change 1 a_fix)"
      by (simp add: trace_before_def spec) (simp add: sync_steps_def c1 demo_env_def failing_def ascii_simps)
    have t2: "trace_before ?body [] ?items 2 =
                sync_steps demo_engine (demo_change 1 a_fix) @ sync_steps demo_engine (demo_change 2 a_fix)"
      by (simp add: trace_before_def spec) (simp add: sync_steps_def c1 c2 demo_env_def failing_def ascii_simps)
    have fails: "first_error ?E (trace_before ?body [] ?items 1) (sync_steps demo_engine (?items ! 1)) = Some ?e"
      unfolding t1 by (simp add: sync_steps_def c1 c2 demo_env_def failing_def ascii_simps)
    have others: "\<forall>i<length ?items. i \<noteq> 1 \<longrightarrow>
                     first_error ?E (trace_before ?body [] ?items i) (sync_steps demo_engine (?items ! i)) = None"
    proof (intro allI impI)
      fix i assume "i < length ?items" "i \<noteq> 1"
      then consider "i = 0" | "i = 2" using two by blast
      then show "first_error ?E (trace_before ?body [] ?items i) (sync_steps demo_engine (?items ! i)) = None"
      proof cases
        case 1 then show ?thesis unfolding 1 t0 by (simp add: sync_steps_def c1 demo_env_def failing_def ascii_simps)
      next
        case 2 then show ?thesis unfolding 2 t2 by (simp add: sync_steps_def c3 demo_env_def failing_def ascii_simps)
      qed
    qed
    from one_failed_item_does_not_stop_the_batch [OF tool changes k fails TrueI others]
    obtain lines where
      run: "fst (for_of ?body [] [] ?items) = Inr lines" and len: "length lines = length ?items" and
      bad: "marked_failed (lines ! 1)" and
      good: "\<forall>i<length ?items. i \<noteq> 1 \<longrightarrow> marked_success (lines ! i)" and
      full: "\<forall>i<length ?items. i \<noteq> 1 \<longrightarrow>
               trace_before ?body [] ?items (Suc i) = trace_before ?body [] ?items i @ sync_steps demo_engine (?items ! i)"
      by blast
    have g: "marked_success (lines ! 0)" "marked_success (lines ! 2)"
      by (rule good [rule_format]; simp)+
    have "trace_before ?body [] ?items (Suc 2) =
            trace_before ?body [] ?items 2 @ sync_steps demo_engine (?items ! 2)"
      by (rule full [rule_format]) simp_all
    then have t3: "trace_before ?body [] ?items 3 =
                     sync_steps demo_engine (demo_change 1 a_fix) @ sync_steps demo_engine (demo_change 2 a_fix) @
                     sync_steps demo_engine (demo_change 3 a_fix)"
      unfolding t2 by (simp add: numeral_3_eq_3)
    from run len bad g have "\<exists>lines. fst (for_of ?body [] [] ?items) = Inr lines \<and>
      length lines = 3 \<and> marked_success (lines ! 0) \<and> marked_failed (lines ! 1) \<and> marked_success (lines ! 2)"
      by simp
    with t3 show ?thesis by blast
  qed
  from review sync show ?thesis by blast
qed

section \<open>The report follows the order of the query\<close>

text \<open>
  Claim C3 says that, whatever items fail, line \<open>i\<close> of the returned report is the line
  of item \<open>i\<close> and no item is dropped. A query for topic \<^verbatim>\<open>t\<close> returns two changes; the
  review and the submit of the first succeed, and the submit of the second is rejected
  with the body \<^verbatim>\<open>{"toString": 1}\<close>. The \<^verbatim>\<open>catch\<close> of the second item throws while it
  prints that body, the loop is left, and the answer of the tool is a single error text:
  it has no line for the first change, which was reviewed and submitted, and none for
  the second.
\<close>

theorem unprintable_failure_drops_every_line:
  "CallTool (demo_env (answering (topic_call (ascii ''t'')) (JArr [open_change 1 a_fix, open_change 2 a_fix])
                         (rejecting (submit_call (ascii ''2'')) no_text))
                      (failing []))
     [] (ascii ''batch_review_submit_by_topic'') (JObj [(ascii ''topic'', JStr (ascii ''t''))]) =
     (Inr \<lparr>content_text = ascii ''Error: Cannot convert object to primitive value'', isError = True\<rparr>,
      [topic_call (ascii ''t''),
       review_call 1 2 (ascii ''1''), SetTimeout 500, submit_call (ascii ''1''),
       review_call 1 2 (ascii ''2''), SetTimeout 500, submit_call (ascii ''2'')])"
proof -
  let ?items = "[open_change 1 a_fix, open_change 2 a_fix]"
  let ?E = "demo_env (answering (topic_call (ascii ''t'')) (JArr ?items)
                        (rejecting (submit_call (ascii ''2'')) no_text)) (failing [])"
  let ?a = "JObj [(ascii ''topic'', JStr (ascii ''t''))]"
  have h1: "BatchReviewSubmitSchema ?E ?a = Inr (ascii ''t'', 1, 2)"
    by (simp add: demo_env_def schema_simps)
  have h2: "gerritApi ?E [] (topic_call (ascii ''t'')) = Inr (JArr ?items)"
    by (simp add: gerritApi_def demo_env_def answering_def)
  have one: "review_item ?E 1 2 [topic_call (ascii ''t'')] (open_change 1 a_fix) =
               (Inr (check_mark @ ascii '' Processed 1: fix''),
                [topic_call (ascii ''t''), review_call 1 2 (ascii ''1''), SetTimeout 500, submit_call (ascii ''1'')])"
    by (simp add: review_item_def review_try_def review_catch_def js_get_def bind_err_def Let_def demo_simps)
  have two: "review_item ?E 1 2
               [topic_call (ascii ''t''), review_call 1 2 (ascii ''1''), SetTimeout 500, submit_call (ascii ''1'')]
               (open_change 2 a_fix) =
               (Inl (new_Error (ascii ''Cannot convert object to primitive value'')),
                [topic_call (ascii ''t''),
                 review_call 1 2 (ascii ''1''), SetTimeout 500, submit_call (ascii ''1''),
                 review_call 1 2 (ascii ''2''), SetTimeout 500, submit_call (ascii ''2'')])"
    by (simp add: review_item_def review_try_def review_catch_def js_get_def bind_err_def Let_def demo_simps)
  have nonempty: "\<not> no_changes (JArr ?items)"
    by (rule no_changes_nonempty) simp
  have switch: "tool_switch ?E [] (ascii ''batch_review_submit_by_topic'') ?a =
               (Inl (new_Error (ascii ''Cannot convert object to primitive value'')),
                [topic_call (ascii ''t''),
                 review_call 1 2 (ascii ''1''), SetTimeout 500, submit_call (ascii ''1''),
                 review_call 1 2 (ascii ''2''), SetTimeout 500, submit_call (ascii ''2'')])"
    using h1 h2 nonempty
    by (simp add: tool_switch_def batch_review_submit_by_topic_def one two report_def ascii_simps)
  show ?thesis
    by (simp add: CallTool_def switch)
       (simp add: errorMessage_def new_Error_def opt_chain_def bind_err_def Let_def ascii_simps)
qed

text \<open>
  Claim C3, amended. When the query of a batch tool resolves to a non-empty list of items
  whose values convert to text (number and subject for \<^verbatim>\<open>batch_review_submit_by_topic\<close>;
  number, project, patchset and subject of changes with a revision under the key of their
  current revision for \<^verbatim>\<open>sync_gerrit_to_local\<close>), and the detail of every failure of a
  step of \<^verbatim>\<open>batch_review_submit_by_topic\<close> converts to text, the text of the answer is
  the lines of the items joined by newlines, one line per item in the order of the list:
  whatever calls fail, line \<open>i\<close> is the line of item \<open>i\<close> (its number and subject, or its
  number and the detail of its failure), decided by the outcome of that item's own steps.
  No item is skipped, moved or reported twice.
\<close>

theorem report_lines_follow_query_order:
  assumes nonempty: "items \<noteq> []"
  shows "(BatchReviewSubmitSchema env args = Inr (topic, vV, vR) \<and>
          gerritApi env tr (topic_call topic) = Inr (JArr items) \<and>
          (\<forall>c\<in>set items. review_ok (engine env) c) \<and>
          (\<forall>i<length items. \<forall>e.
              first_error env (trace_before (review_item env vV vR) (tr @ [topic_call topic]) items i)
                (review_steps vV vR (engine env) (items ! i)) = Some e
              \<longrightarrow> prints (engine env) (detail e)) \<longrightarrow>
            fst (CallTool env tr (ascii ''batch_review_submit_by_topic'') args) =
              Inr \<lparr>content_text =
                     join newline
                       (map (\<lambda>i. review_line (engine env) (items ! i)
                                   (first_error env
                                      (trace_before (review_item env vV vR) (tr @ [topic_call topic]) items i)
                                      (review_steps vV vR (engine env) (items ! i))))
                          [0..<length items]),
                   isError = False\<rparr>) \<and>
         (SyncGerritSchema env args = Inr (t, c) \<and> sync_query t c = Inr query \<and>
          gerritApi env tr (sync_call query) = Inr (JArr items) \<and>
          (\<forall>c\<in>set items. sync_ok (engine env) c) \<longrightarrow>
            fst (CallTool env tr (ascii ''sync_gerrit_to_local'') args) =
              Inr \<lparr>content_text =
                     join newline
                       (map (\<lambda>i. sync_line (engine env) (items ! i)
                                   (first_error env
                                      (trace_before (sync_item env) (tr @ [sync_call query]) items i)
                                      (sync_steps (engine env) (items ! i))))
                          [0..<length items]),
                   isError = False\<rparr>)"
proof (intro conjI impI)
  assume a: "BatchReviewSubmitSchema env args = Inr (topic, vV, vR) \<and>
          gerritApi env tr (topic_call topic) = Inr (JArr items) \<and>
          (\<forall>c\<in>set items. review_ok (engine env) c) \<and>
          (\<forall>i<length items. \<forall>e.
              first_error env (trace_before (review_item env vV vR) (tr @ [topic_call topic]) items i)
                (review_steps vV vR (engine env) (items ! i)) = Some e
              \<longrightarrow> prints (engine env) (detail e))"
  let ?body = "review_item env vV vR"
  let ?tr = "tr @ [topic_call topic]"
  let ?line = "\<lambda>i. review_line (engine env) (items ! i)
                      (first_error env (trace_before ?body ?tr items i) (review_steps vV vR (engine env) (items ! i)))"
  have "\<forall>i<length items. ?body (trace_before ?body ?tr items i) (items ! i) =
          (Inr (review_line (engine env) (items ! i)
                  (first_error env (trace_before ?body ?tr items i) (review_steps vV vR (engine env) (items ! i)))),
           trace_before ?body ?tr items i
             @ invoked env (trace_before ?body ?tr items i) (review_steps vV vR (engine env) (items ! i)))"
    using a by (simp add: review_item_spec)
  from batch_lines [OF this] obtain lines where
    run: "fst (for_of ?body ?tr [] items) = Inr lines" and
    len: "length lines = length items" and
    each: "\<forall>i<length items. lines ! i = ?line i"
    by auto
  have lines: "lines = map ?line [0..<length items]"
    using len each by (intro nth_equalityI) simp_all
  have "fst (tool_switch env tr (ascii ''batch_review_submit_by_topic'') args) = Inr (ok (join newline lines))"
    using a no_changes_nonempty [OF nonempty] fst_report [OF run]
    by (simp add: tool_switch_def batch_review_submit_by_topic_def ascii_simps)
  then have "fst (CallTool env tr (ascii ''batch_review_submit_by_topic'') args) = Inr (ok (join newline lines))"
    by (rule CallTool_Inr)
  then show "fst (CallTool env tr (ascii ''batch_review_submit_by_topic'') args) =
               Inr \<lparr>content_text = join newline (map ?line [0..<length items]), isError = False\<rparr>"
    unfolding lines ok_def .
next
  assume a: "SyncGerritSchema env args = Inr (t, c) \<and> sync_query t c = Inr query \<and>
          gerritApi env tr (sync_call query) = Inr (JArr items) \<and>
          (\<forall>c\<in>set items. sync_ok (engine env) c)"
  let ?body = "sync_item env"
  let ?tr = "tr @ [sync_call query]"
  let ?line = "\<lambda>i. sync_line (engine env) (items ! i)
                      (first_error env (trace_before ?body ?tr items i) (sync_steps (engine env) (items ! i)))"
  have "\<forall>i<length items. ?body (trace_before ?body ?tr items i) (items ! i) =
          (Inr (sync_line (engine env) (items ! i)
                  (first_error env (trace_before ?body ?tr items i) (sync_steps (engine env) (items ! i)))),
           trace_before ?body ?tr items i
             @ invoked env (trace_before ?body ?tr items i) (sync_steps (engine env) (items ! i)))"
    using a by (simp add: sync_item_spec)
  from batch_lines [OF this] obtain lines where
    run: "fst (for_of ?body ?tr [] items) = Inr lines" and
    len: "length lines = length items" and
    each: "\<forall>i<length items. lines ! i = ?line i"
    by auto
  have lines: "lines = map ?line [0..<length items]"
    using len each by (intro nth_equalityI) simp_all
  have "fst (tool_switch env tr (ascii ''sync_gerrit_to_local'') args) = Inr (ok (join newline lines))"
    using a no_changes_nonempty [OF nonempty] fst_report [OF run]
    by (simp add: tool_switch_def sync_gerrit_to_local_def ascii_simps)
  then have "fst (CallTool env tr (ascii ''sync_gerrit_to_local'') args) = Inr (ok (join newline lines))"
    by (rule CallTool_Inr)
  then show "fst (CallTool env tr (ascii ''sync_gerrit_to_local'') args) =
               Inr \<lparr>content_text = join newline (map ?line [0..<length items]), isError = False\<rparr>"
    unfolding lines ok_def .
qed

theorem report_lines_follow_query_order_witness:
  "fst (CallTool (demo_env (answering (topic_call (ascii ''t'')) (JArr [open_change 1 a_fix, open_change 2 a_fix])
                              (rejecting (submit_call (ascii ''2'')) (JStr (ascii ''merge conflict''))))
                           (failing []))
          [] (ascii ''batch_review_submit_by_topic'') (JObj [(ascii ''topic'', JStr (ascii ''t''))])) =
     Inr \<lparr>content_text = check_mark @ ascii '' Processed 1: fix'' @ newline @
                          cross_mark @ ascii '' Failed 2: merge conflict'',
          isError = False\<rparr> \<and>
   fst (CallTool (demo_env (answering (sync_call (ascii ''7'')) (JArr [demo_change 1 a_fix, demo_change 2 a_fix])
                              (rejecting (SetTimeout 0) JNull))
                           (failing (ascii ''repo download app 1/3'')))
          [] (ascii ''sync_gerrit_to_local'') (JObj [(ascii ''changeId'', JStr (ascii ''7''))])) =
     Inr \<lparr>content_text = cross_mark @ ascii '' Failed 1 in app: Command failed: repo download app 1/3'' @ newline @
                          check_mark @ ascii '' Synced 2/3 in app: fix'',
          isError = False\<rparr>"
proof -
  have upt: "[0..<length [a, b]] = [0, 1]" for a b :: jsval
    by (simp add: upt_rec)
  have review: "fst (CallTool (demo_env (answering (topic_call (ascii ''t'')) (JArr [open_change 1 a_fix, open_change 2 a_fix])
                              (rejecting (submit_call (ascii ''2'')) (JStr (ascii ''merge conflict''))))
                           (failing []))
          [] (ascii ''batch_review_submit_by_topic'') (JObj [(ascii ''topic'', JStr (ascii ''t''))])) =
     Inr \<lparr>content_text = check_mark @ ascii '' Processed 1: fix'' @ newline @
                          cross_mark @ ascii '' Failed 2: merge conflict'',
          isError = False\<rparr>"
  proof -
    let ?items = "[open_change 1 a_fix, open_change 2 a_fix]"
    let ?E = "demo_env (answering (topic_call (ascii ''t'')) (JArr ?items)
                          (rejecting (submit_call (ascii ''2'')) (JStr (ascii ''merge conflict'')))) (failing [])"
    let ?a = "JObj [(ascii ''topic'', JStr (ascii ''t''))]"
    let ?body = "review_item ?E 1 2"
    let ?tr = "[] @ [topic_call (ascii ''t'')]"
    have engine: "engine ?E = demo_engine" by (simp add: demo_env_def)
    have h1: "?items \<noteq> []" by simp
    have h2: "\<forall>c\<in>set ?items. review_ok (engine ?E) c" by (simp add: engine open_change_ok)
    have h3: "BatchReviewSubmitSchema ?E ?a = Inr (ascii ''t'', 1, 2)" by (simp add: demo_env_def schema_simps)
    have h4: "gerritApi ?E [] (topic_call (ascii ''t'')) = Inr (JArr ?items)"
      by (simp add: gerritApi_def demo_env_def answering_def)
    have b1: "?body [topic_call (ascii ''t'')] (open_change 1 a_fix) =
               (Inr (check_mark @ ascii '' Processed 1: fix''),
                topic_call (ascii ''t'') # review_steps 1 2 demo_engine (open_change 1 a_fix))"
      by (simp add: review_item_def review_try_def review_catch_def js_get_def bind_err_def Let_def demo_simps)
    have t0: "trace_before ?body ?tr ?items 0 = [topic_call (ascii ''t'')]"
      by (simp add: trace_before_def)
    have t1: "trace_before ?body ?tr ?items 1 = topic_call (ascii ''t'') # review_steps 1 2 demo_engine (open_change 1 a_fix)"
      by (simp add: trace_before_def b1)
    have f0: "first_error ?E (trace_before ?body ?tr ?items 0) (review_steps 1 2 (engine ?E) (?items ! 0)) = None"
      unfolding t0 engine by (simp add: demo_simps)
    have f1: "first_error ?E (trace_before ?body ?tr ?items 1) (review_steps 1 2 (engine ?E) (?items ! 1)) =
                Some \<lparr>message = ascii ''Request failed with status code 409'',
                      response_data = Some (JStr (ascii ''merge conflict''))\<rparr>"
      unfolding t1 engine by (simp add: demo_simps)
    have h5: "\<forall>i<length ?items. \<forall>e.
                first_error ?E (trace_before ?body ?tr ?items i) (review_steps 1 2 (engine ?E) (?items ! i)) = Some e
                \<longrightarrow> prints (engine ?E) (detail e)"
    proof (intro allI impI)
      fix i e
      assume i: "i < length ?items"
        and e: "first_error ?E (trace_before ?body ?tr ?items i) (review_steps 1 2 (engine ?E) (?items ! i)) = Some e"
      from i consider "i = 0" | "i = 1" by force
      then show "prints (engine ?E) (detail e)"
      proof cases
        case 1 with e f0 show ?thesis by simp
      next
        case 2 with e f1 show ?thesis by (auto simp: prints_def detail_def)
      qed
    qed
    have l0: "review_line (engine ?E) (?items ! 0)
                (first_error ?E (trace_before ?body ?tr ?items 0) (review_steps 1 2 (engine ?E) (?items ! 0))) =
              check_mark @ ascii '' Processed 1: fix''"
      unfolding f0 by (simp add: engine demo_simps)
    have l1: "review_line (engine ?E) (?items ! 1)
                (first_error ?E (trace_before ?body ?tr ?items 1) (review_steps 1 2 (engine ?E) (?items ! 1))) =
              cross_mark @ ascii '' Failed 2: merge conflict''"
      unfolding f1 by (simp add: engine demo_simps)
    from report_lines_follow_query_order [OF h1, of ?E ?a "ascii ''t''" 1 2 "[]"] h2 h3 h4 h5
    have "fst (CallTool ?E [] (ascii ''batch_review_submit_by_topic'') ?a) =
            Inr \<lparr>content_text =
                   join newline
                     (map (\<lambda>i. review_line (engine ?E) (?items ! i)
                                 (first_error ?E (trace_before ?body ?tr ?items i)
                                    (review_steps 1 2 (engine ?E) (?items ! i))))
                        [0..<length ?items]),
                 isError = False\<rparr>"
      by blast
    then show ?thesis
      unfolding upt list.map l0 l1 by simp
  qed
  have sync: "fst (CallTool (demo_env (answering (sync_call (ascii ''7'')) (JArr [demo_change 1 a_fix, demo_change 2 a_fix])
                              (rejecting (SetTimeout 0) JNull))
                           (failing (ascii ''repo download app 1/3'')))
          [] (ascii ''sync_gerrit_to_local'') (JObj [(ascii ''changeId'', JStr (ascii ''7''))])) =
     Inr \<lparr>content_text = cross_mark @ ascii '' Failed 1 in app: Command failed: repo download app 1/3'' @ newline @
                          check_mark @ ascii '' Synced 2/3 in app: fix'',
          isError = False\<rparr>"
  proof -
    let ?items = "[demo_change 1 a_fix, demo_change 2 a_fix]"
    let ?E = "demo_env (answering (sync_call (ascii ''7'')) (JArr ?items) (rejecting (SetTimeout 0) JNull))
                (failing (ascii ''repo download app 1/3''))"
    let ?a = "JObj [(ascii ''changeId'', JStr (ascii ''7''))]"
    let ?body = "sync_item ?E"
    let ?tr = "[] @ [sync_call (ascii ''7'')]"
    have engine: "engine ?E = demo_engine" by (simp add: demo_env_def)
    have h1: "?items \<noteq> []" by simp
    have h2: "\<forall>c\<in>set ?items. sync_ok (engine ?E) c" by (simp add: engine demo_change_ok)
    have h3: "SyncGerritSchema ?E ?a = Inr (None, Some (ascii ''7''))" by (simp add: demo_env_def schema_simps)
    have h4: "sync_query None (Some (ascii ''7'')) = Inr (ascii ''7'')"
      by (simp add: sync_query_def ascii_simps)
    have h5: "gerritApi ?E [] (sync_call (ascii ''7'')) = Inr (JArr ?items)"
      by (simp add: gerritApi_def demo_env_def answering_def)
    have c1: "sync_cmd demo_engine (demo_change 1 a_fix) = ascii ''repo download app 1/3''"
      and c2: "sync_cmd demo_engine (demo_change 2 a_fix) = ascii ''repo download app 2/3''"
      by (simp_all add: sync_cmd_def demo_patchset text_of_def)
         (simp_all add: demo_change_def show_int_def digits.simps ascii_simps)
    have spec: "?body t (demo_change n a_fix) =
       (Inr (sync_line demo_engine (demo_change n a_fix) (first_error ?E t (sync_steps demo_engine (demo_change n a_fix)))),
        t @ invoked ?E t (sync_steps demo_engine (demo_change n a_fix)))" for t n
      using sync_item_spec [of ?E "demo_change n a_fix" t] by (simp add: engine demo_change_ok)
    have t0: "trace_before ?body ?tr ?items 0 = [sync_call (ascii ''7'')]"
      by (simp add: trace_before_def)
    have t1: "trace_before ?body ?tr ?items 1 = sync_call (ascii ''7'') # sync_steps demo_engine (demo_change 1 a_fix)"
      by (simp add: trace_before_def spec) (simp add: sync_steps_def c1 demo_env_def failing_def ascii_simps)
    have f0: "first_error ?E (trace_before ?body ?tr ?items 0) (sync_steps (engine ?E) (?items ! 0)) =
                Some (new_Error (ascii ''Command failed: repo download app 1/3''))"
      unfolding t0 engine by (simp add: sync_steps_def c1 demo_env_def failing_def ascii_simps)
    have f1: "first_error ?E (trace_before ?body ?tr ?items 1) (sync_steps (engine ?E) (?items ! 1)) = None"
      unfolding t1 engine by (simp add: sync_steps_def c1 c2 demo_env_def failing_def ascii_simps)
    have l0: "sync_line (engine ?E) (?items ! 0)
                (first_error ?E (trace_before ?body ?tr ?items 0) (sync_steps (engine ?E) (?items ! 0))) =
              cross_mark @ ascii '' Failed 1 in app: Command failed: repo download app 1/3''"
      unfolding f0 by (simp add: engine new_Error_def text_of_def) (simp add: demo_change_def show_int_def digits.simps ascii_simps)
    have l1: "sync_line (engine ?E) (?items ! 1)
                (first_error ?E (trace_before ?body ?tr ?items 1) (sync_steps (engine ?E) (?items ! 1))) =
              check_mark @ ascii '' Synced 2/3 in app: fix''"
      unfolding f1 by (simp add: engine demo_patchset text_of_def)
                      (simp add: demo_change_def a_fix_def show_int_def digits.simps ascii_simps)
    from report_lines_follow_query_order [OF h1, of ?E ?a _ _ _ "[]" None "Some (ascii ''7'')" "ascii ''7''"] h2 h3 h4 h5
    have "fst (CallTool ?E [] (ascii ''sync_gerrit_to_local'') ?a) =
            Inr \<lparr>content_text =
                   join newline
                     (map (\<lambda>i. sync_line (engine ?E) (?items ! i)
                                 (first_error ?E (trace_before ?body ?tr ?items i)
                                    (sync_steps (engine ?E) (?items ! i))))
                        [0..<length ?items]),
                 isError = False\<rparr>"
      by blast
    then show ?thesis
      unfolding upt list.map l0 l1 by simp
  qed
  from review sync show ?thesis by blast
qed

section \<open>The format of a line of the report\<close>

text \<open>
  Claim C6 says that the detail of a failure line prefers the message field of the
  upstream error payload. The source prints \<^verbatim>\<open>e.response?.data || e.message\<close>: the body of
  the upstream answer as a whole, not a field of it. When the submit of change 2 is
  rejected with the body \<^verbatim>\<open>{"message": "merge conflict"}\<close>, the line printed is
  \<^verbatim>\<open>Failed 2: [object Object]\<close> after the cross, not \<^verbatim>\<open>Failed 2: merge conflict\<close>. And
  when it is rejected with the body \<^verbatim>\<open>{"toString": 1}\<close>, which does not convert to text,
  the item contributes no line: the \<^verbatim>\<open>catch\<close> throws.
\<close>

theorem upstream_message_field_not_extracted:
  "first_error (demo_env (rejecting (submit_call (ascii ''2'')) (JObj [(ascii ''message'', JStr (ascii ''merge conflict''))]))
                  (failing []))
     [] (review_steps 1 2 demo_engine (open_change 2 a_fix)) =
     Some \<lparr>message = ascii ''Request failed with status code 409'',
           response_data = Some (JObj [(ascii ''message'', JStr (ascii ''merge conflict''))])\<rparr> \<and>
   fst (review_item (demo_env (rejecting (submit_call (ascii ''2'')) (JObj [(ascii ''message'', JStr (ascii ''merge conflict''))]))
                       (failing []))
     1 2 [] (open_change 2 a_fix)) = Inr (cross_mark @ ascii '' Failed 2: [object Object]'') \<and>
   cross_mark @ ascii '' Failed 2: [object Object]'' \<noteq> cross_mark @ ascii '' Failed 2: merge conflict'' \<and>
   fst (review_item (demo_env (rejecting (submit_call (ascii ''2'')) no_text) (failing []))
     1 2 [] (open_change 2 a_fix)) = Inl (new_Error (ascii ''Cannot convert object to primitive value''))"
  by (simp add: review_item_def review_try_def review_catch_def js_get_def bind_err_def Let_def demo_simps)

text \<open>
  Claim C6, amended. Every item of a batch whose values convert to text contributes one
  line. For \<^verbatim>\<open>batch_review_submit_by_topic\<close>, with \<open>n\<close> the text of the number of the
  change: when every step succeeds and the subject converts to the text \<open>s\<close>, the check
  mark, \<^verbatim>\<open>Processed\<close>, \<open>n\<close> and \<open>s\<close>; when a step fails, the cross, \<^verbatim>\<open>Failed\<close>, \<open>n\<close> and a
  detail: the body of the upstream answer as a whole converted to text when the failure
  carries one that is truthy, otherwise the failure's own message, provided that it
  converts. For \<^verbatim>\<open>sync_gerrit_to_local\<close>, with \<open>n\<close>, \<open>p\<close> and \<open>ps\<close> the texts of number,
  project and patchset: the check mark, \<^verbatim>\<open>Synced\<close>, \<open>n/ps\<close>, \<open>p\<close> and the subject, or the
  cross, \<^verbatim>\<open>Failed\<close>, \<open>n\<close>, \<open>p\<close> and the failure's own message. In particular a step rejected
  with the body text \<^verbatim>\<open>merge conflict\<close> gives the line that ends in \<^verbatim>\<open>: merge conflict\<close>.
\<close>

theorem report_line_format:
  "(has_properties change \<and> ToString (engine env) (js_prop change F_number) = Inr n \<longrightarrow>
      (first_error env tr (review_steps vV vR (engine env) change) = None \<and>
       ToString (engine env) (js_prop change F_subject) = Inr s \<longrightarrow>
         fst (review_item env vV vR tr change) =
           Inr (check_mark @ ascii '' Processed '' @ n @ ascii '': '' @ s)) \<and>
      (first_error env tr (review_steps vV vR (engine env) change) = Some e \<and>
       ToString (engine env)
         (case response_data e of
            None \<Rightarrow> JStr (message e)
          | Some body \<Rightarrow> if truthy body then body else JStr (message e)) = Inr d \<longrightarrow>
         fst (review_item env vV vR tr change) =
           Inr (cross_mark @ ascii '' Failed '' @ n @ ascii '': '' @ d))) \<and>
   (is_change (engine env) change \<and> ToString (engine env) (js_prop change F_number) = Inr n \<and>
    ToString (engine env) (js_prop change F_project) = Inr p \<and>
    ToString (engine env) (patchset_of (engine env) change) = Inr ps \<longrightarrow>
      (first_error env tr (sync_steps (engine env) change) = None \<and>
       ToString (engine env) (js_prop change F_subject) = Inr s \<longrightarrow>
         fst (sync_item env tr change) =
           Inr (check_mark @ ascii '' Synced '' @ n @ ascii ''/'' @ ps @ ascii '' in '' @ p @ ascii '': '' @ s)) \<and>
      (first_error env tr (sync_steps (engine env) change) = Some e \<longrightarrow>
         fst (sync_item env tr change) =
           Inr (cross_mark @ ascii '' Failed '' @ n @ ascii '' in '' @ p @ ascii '': '' @ message e))) \<and>
   (has_properties change \<and> ToString (engine env) (js_prop change F_number) = Inr n \<and>
    first_error env tr (review_steps vV vR (engine env) change) = Some e \<and>
    response_data e = Some (JStr (ascii ''merge conflict'')) \<longrightarrow>
      fst (review_item env vV vR tr change) =
        Inr (cross_mark @ ascii '' Failed '' @ n @ ascii '': merge conflict''))"
proof (intro conjI impI)
  assume a: "has_properties change \<and> ToString (engine env) (js_prop change F_number) = Inr n"
    and b: "first_error env tr (review_steps vV vR (engine env) change) = None \<and>
            ToString (engine env) (js_prop change F_subject) = Inr s"
  from a have "has_properties change" "ToString (engine env) (js_prop change F_number) = Inr n" by simp_all
  from review_item_steps [OF this] b
  show "fst (review_item env vV vR tr change) =
          Inr (check_mark @ ascii '' Processed '' @ n @ ascii '': '' @ s)"
    by (simp add: bind_err_def)
next
  assume a: "has_properties change \<and> ToString (engine env) (js_prop change F_number) = Inr n"
    and b: "first_error env tr (review_steps vV vR (engine env) change) = Some e \<and>
            ToString (engine env)
              (case response_data e of
                 None \<Rightarrow> JStr (message e)
               | Some body \<Rightarrow> if truthy body then body else JStr (message e)) = Inr d"
  from a have "has_properties change" "ToString (engine env) (js_prop change F_number) = Inr n" by simp_all
  from review_item_steps [OF this] b
  show "fst (review_item env vV vR tr change) =
          Inr (cross_mark @ ascii '' Failed '' @ n @ ascii '': '' @ d)"
    by (simp add: bind_err_def detail_def)
next
  assume a: "is_change (engine env) change \<and> ToString (engine env) (js_prop change F_number) = Inr n \<and>
             ToString (engine env) (js_prop change F_project) = Inr p \<and>
             ToString (engine env) (patchset_of (engine env) change) = Inr ps"
    and b: "first_error env tr (sync_steps (engine env) change) = None \<and>
            ToString (engine env) (js_prop change F_subject) = Inr s"
  from a have c: "is_change (engine env) change" by simp
  show "fst (sync_item env tr change) =
          Inr (check_mark @ ascii '' Synced '' @ n @ ascii ''/'' @ ps @ ascii '' in '' @ p @ ascii '': '' @ s)"
    using a b is_change_read [OF c]
    unfolding sync_item_def sync_try_def sync_catch_def synced_line_def repo_cmd_def sync_steps_def
      sync_cmd_def js_get_def Let_def bind_err_def has_properties_def text_of_def
    by (simp split: option.splits)
next
  assume a: "is_change (engine env) change \<and> ToString (engine env) (js_prop change F_number) = Inr n \<and>
             ToString (engine env) (js_prop change F_project) = Inr p \<and>
             ToString (engine env) (patchset_of (engine env) change) = Inr ps"
    and b: "first_error env tr (sync_steps (engine env) change) = Some e"
  from a have c: "is_change (engine env) change" by simp
  show "fst (sync_item env tr change) =
          Inr (cross_mark @ ascii '' Failed '' @ n @ ascii '' in '' @ p @ ascii '': '' @ message e)"
    using a b is_change_read [OF c]
    unfolding sync_item_def sync_try_def sync_catch_def synced_line_def repo_cmd_def sync_steps_def
      sync_cmd_def js_get_def Let_def bind_err_def has_properties_def text_of_def
    by (simp split: option.splits)
next
  assume a: "has_properties change \<and> ToString (engine env) (js_prop change F_number) = Inr n \<and>
             first_error env tr (review_steps vV vR (engine env) change) = Some e \<and>
             response_data e = Some (JStr (ascii ''merge conflict''))"
  then have "has_properties change" "ToString (engine env) (js_prop change F_number) = Inr n" by simp_all
  from review_item_steps [OF this] a
  show "fst (review_item env vV vR tr change) =
          Inr (cross_mark @ ascii '' Failed '' @ n @ ascii '': merge conflict'')"
    by (simp add: bind_err_def detail_def ascii_simps)
qed

theorem report_line_format_witness:
  "fst (review_item (demo_env (rejecting (submit_call (ascii ''2'')) (JStr (ascii ''merge conflict''))) (failing [])) 1 2 []
          (open_change 1 a_fix)) = Inr (check_mark @ ascii '' Processed 1: fix'') \<and>
   fst (review_item (demo_env (rejecting (submit_call (ascii ''2'')) (JStr (ascii ''merge conflict''))) (failing [])) 1 2 []
          (open_change 2 a_fix)) = Inr (cross_mark @ ascii '' Failed 2: merge conflict'') \<and>
   fst (sync_item (demo_env (rejecting (submit_call (ascii ''2'')) JNull) (failing (ascii ''repo download app 2/3''))) []
          (demo_change 1 a_fix)) = Inr (check_mark @ ascii '' Synced 1/3 in app: fix'') \<and>
   fst (sync_item (demo_env (rejecting (submit_call (ascii ''2'')) JNull) (failing (ascii ''repo download app 2/3''))) []
          (demo_change 2 a_fix)) =
     Inr (cross_mark @ ascii '' Failed 2 in app: Command failed: repo download app 2/3'')"
proof -
  let ?E = "demo_env (rejecting (submit_call (ascii ''2'')) (JStr (ascii ''merge conflict''))) (failing [])"
  let ?F = "demo_env (rejecting (submit_call (ascii ''2'')) JNull) (failing (ascii ''repo download app 2/3''))"
  let ?e = "\<lparr>message = ascii ''Request failed with status code 409'',
             response_data = Some (JStr (ascii ''merge conflict''))\<rparr>"
  let ?f = "new_Error (ascii ''Command failed: repo download app 2/3'')"
  have engine: "engine (demo_env ad ex) = demo_engine" for ad ex
    by (simp add: demo_env_def)
  have props: "has_properties (open_change k a_fix)" "is_change demo_engine (demo_change k a_fix)" for k
    using open_change_ok [of k] demo_change_ok [of k] by (simp_all add: review_ok_def sync_ok_def)
  have texts:
    "ToString demo_engine (js_prop (open_change 1 a_fix) F_number) = Inr (ascii ''1'')"
    "ToString demo_engine (js_prop (open_change 2 a_fix) F_number) = Inr (ascii ''2'')"
    "ToString demo_engine (js_prop (open_change 1 a_fix) F_subject) = Inr (ascii ''fix'')"
    "ToString demo_engine (js_prop (demo_change 1 a_fix) F_number) = Inr (ascii ''1'')"
    "ToString demo_engine (js_prop (demo_change 2 a_fix) F_number) = Inr (ascii ''2'')"
    "ToString demo_engine (js_prop (demo_change k a_fix) F_project) = Inr (ascii ''app'')"
    "ToString demo_engine (patchset_of demo_engine (demo_change k a_fix)) = Inr (ascii ''3'')"
    "ToString demo_engine (js_prop (demo_change 1 a_fix) F_subject) = Inr (ascii ''fix'')" for k
    by (simp_all add: demo_patchset) (simp_all add: demo_simps)
  have c1: "sync_cmd demo_engine (demo_change 1 a_fix) = ascii ''repo download app 1/3''"
    and c2: "sync_cmd demo_engine (demo_change 2 a_fix) = ascii ''repo download app 2/3''"
    by (simp_all add: sync_cmd_def demo_patchset text_of_def)
       (simp_all add: demo_change_def show_int_def digits.simps ascii_simps)
  have outcomes:
    "first_error ?E [] (review_steps 1 2 demo_engine (open_change 1 a_fix)) = None"
    "first_error ?E [] (review_steps 1 2 demo_engine (open_change 2 a_fix)) = Some ?e"
    "first_error ?F [] (sync_steps demo_engine (demo_change 1 a_fix)) = None"
    "first_error ?F [] (sync_steps demo_engine (demo_change 2 a_fix)) = Some ?f"
    by (simp_all add: sync_steps_def c1 c2) (simp_all add: demo_simps)
  have w1: "fst (review_item ?E 1 2 [] (open_change 1 a_fix)) =
              Inr (check_mark @ ascii '' Processed '' @ ascii ''1'' @ ascii '': '' @ ascii ''fix'')"
    using props [of 1] texts outcomes
      report_line_format [where change = "open_change 1 a_fix" and env = ?E and n = "ascii ''1''" and tr = "[]"
                            and vV = 1 and vR = 2 and s = "ascii ''fix''"]
    by (simp add: engine)
  have w2: "fst (review_item ?E 1 2 [] (open_change 2 a_fix)) =
              Inr (cross_mark @ ascii '' Failed '' @ ascii ''2'' @ ascii '': merge conflict'')"
    using props [of 2] texts outcomes
      report_line_format [where change = "open_change 2 a_fix" and env = ?E and n = "ascii ''2''" and tr = "[]"
                            and vV = 1 and vR = 2 and e = ?e]
    by (simp add: engine)
  have w3: "fst (sync_item ?F [] (demo_change 1 a_fix)) =
              Inr (check_mark @ ascii '' Synced '' @ ascii ''1'' @ ascii ''/'' @ ascii ''3'' @ ascii '' in ''
                     @ ascii ''app'' @ ascii '': '' @ ascii ''fix'')"
    using props [of 1] texts outcomes
      report_line_format [where change = "demo_change 1 a_fix" and env = ?F and n = "ascii ''1''" and tr = "[]"
                            and p = "ascii ''app''" and ps = "ascii ''3''" and s = "ascii ''fix''"]
    by (simp add: engine)
  have w4: "fst (sync_item ?F [] (demo_change 2 a_fix)) =
              Inr (cross_mark @ ascii '' Failed '' @ ascii ''2'' @ ascii '' in '' @ ascii ''app'' @ ascii '': ''
                     @ message ?f)"
    using props [of 2] texts outcomes
      report_line_format [where change = "demo_change 2 a_fix" and env = ?F and n = "ascii ''2''" and tr = "[]"
                            and p = "ascii ''app''" and ps = "ascii ''3''" and e = ?f]
    by (simp add: engine)
  show ?thesis
    unfolding w1 w2 w3 w4 by (simp add: new_Error_def ascii_simps)
qed

section \<open>Failures at the tool boundary\<close>




end
